theory Spec2Isabelle
  imports Main "HOL-Library.Word"
begin

section \<open>Data model (types.go)\<close>

text \<open>
  Go strings are byte sequences and \<open>len\<close> counts bytes; they are modelled as
  \<open>string\<close> (a list of 8-bit characters) and \<open>len\<close> as \<open>length\<close>.

  A \<open>time.Time\<close> is modelled as an integer number of nanoseconds on one time line
  (\<open>Before\<close> is \<open><\<close>); the finite range of \<open>time.Time\<close>, hundreds of billions of
  years, is not modelled. A \<open>time.Duration\<close> is Go's \<open>int64\<close> count of nanoseconds, a
  64-bit word whose multiplication wraps around.
\<close>

type_synonym time_Time = int
type_synonym time_Duration = "64 word"

definition time_Second :: time_Duration where
  "time_Second = 1000000000"

definition time_Add :: "time_Time \<Rightarrow> time_Duration \<Rightarrow> time_Time" where
  "time_Add t d = t + sint d"

definition time_Before :: "time_Time \<Rightarrow> time_Time \<Rightarrow> bool" where
  "time_Before t u = (t < u)"

text \<open>The struct \<open>Tokens\<close>; the lifetimes are \<open>int64\<close>.\<close>

record Tokens =
  AccessToken :: string
  RefreshToken :: string
  AccessExpires :: "64 word"
  RefreshExpires :: "64 word"
  AccessExpiresTime :: time_Time
  RefreshExpiresTime :: time_Time

text \<open>
  The struct \<open>Client\<close>. The field \<open>httpClient\<close> is a pointer to an \<open>http.Client\<close>: an
  address in the store of \<open>http.Client\<close> values defined with \<open>NewClient\<close> below.
\<close>

record Client =
  httpClient :: nat
  lang :: string
  region :: string

text \<open>
  The struct \<open>ClientAPI\<close>. \<open>Tokens\<close> is a pointer that may be nil (\<open>None\<close>); a refresh
  stores a pointer to a new \<open>Tokens\<close> value, so the field is replaced as a whole.
\<close>

record ClientAPI =
  Client :: Client
  Tokens :: "Tokens option"
  NPSSO :: string

text \<open>The struct \<open>RequestError\<close> with its anonymous inner struct \<open>Error\<close>.\<close>

record RequestError_Error =
  Reason :: string
  Source :: string
  Code :: int
  Message :: string
  ReferenceID :: string

record RequestError =
  Error :: RequestError_Error

section \<open>Errors\<close>

text \<open>
  One constructor for each place where the source creates an error. A wrapped error of the
  standard library (\<open>%w\<close> of a transport, parsing or decoding failure) is carried as its
  message; a wrapped error of this package is carried as an \<open>error\<close>.
\<close>

datatype error =
    ErrNPSSOEmpty
  | ErrNPSSOLength
  | invalid_npsso error
  | cant_do_auth_request error
  | npsso_parameter_is_required
  | error_creating_request string
  | error_sending_request string
  | request_cancelled string
  | error_check_npsso
  | error_parsing_location_URL string
  | error_creating_token_request string
  | error_sending_token_request string
  | token_request_cancelled string
  | unable_to_obtain_Authentication_Token
  | error_reading_response_body string
  | error_parsing_token_response string
  | invalid_tokens
  | error_refreshing_tokens error
  | resource_not_found string
  | rate_limit_exceeded
  | unexpected_status_code int string
  | error_unmarshaling_response string string
  | request_error string

section \<open>Credential validation (auth.go, validateNPSSO)\<close>

definition validateNPSSO :: "string \<Rightarrow> error option" where
  "validateNPSSO npsso =
     (if npsso = '''' then Some ErrNPSSOEmpty
      else if length npsso \<noteq> 64 then Some ErrNPSSOLength
      else None)"

section \<open>The outside world\<close>

text \<open>
  The standard library and the network are collaborators of the package, not part of it.
  They are parameters of the model, collected in a record \<open>env\<close>:
  \<^item> \<open>Do cl log req\<close> is the outcome of \<open>Do(req)\<close> on the \<open>http.Client\<close> at address
    \<open>cl\<close> when the requests of \<open>log\<close> were sent before: a transport error (\<open>Inl\<close>) or
    a response;
  \<^item> \<open>Now n\<close> is the reading of the \<open>n\<close>-th call of \<open>time.Now()\<close>;
  \<^item> \<open>url_Parse\<close> is \<open>url.Parse\<close>; a parsed URL is represented by its query values
    (\<open>Query()\<close>);
  \<^item> \<open>Values_Encode\<close> is \<open>url.Values.Encode\<close>;
  \<^item> \<open>Unmarshal_Tokens\<close> and \<open>Unmarshal_RequestError\<close> are \<open>json.Unmarshal\<close> into a zero
    \<open>Tokens\<close> and a zero \<open>RequestError\<close>.
\<close>

datatype http_method = MethodGet | MethodPost

record request =
  Method :: http_method
  URL :: string
  Header :: "(string \<times> string) list"
  Body :: string

text \<open>
  Of a response the package reads the status code, the \<open>Location\<close> header
  (\<open>Header.Get\<close>, the empty string when the header is absent) and the body
  (\<open>io.ReadAll\<close>, which may fail).
\<close>

record response =
  StatusCode :: int
  Location :: string
  ReadAll :: "string + string"

record env =
  Do :: "nat \<Rightarrow> request list \<Rightarrow> request \<Rightarrow> string + response"
  Now :: "nat \<Rightarrow> time_Time"
  url_Parse :: "string \<Rightarrow> string + (string \<times> string) list"
  Values_Encode :: "(string \<times> string) list \<Rightarrow> string"
  Unmarshal_Tokens :: "string \<Rightarrow> string + Tokens"
  Unmarshal_RequestError :: "string \<Rightarrow> string + RequestError"

text \<open>
  What the package does to the world: the requests it handed to the transport, in order,
  and the number of clock readings it took.
\<close>

record world =
  sent :: "request list"
  clock_reads :: nat

text \<open>
  A \<open>context.Context\<close> is nil, or answers \<open>Err()\<close>; \<open>Context f\<close> answers \<open>f log\<close>
  (\<open>None\<close> is the nil error) once the requests of \<open>log\<close> have been sent.
  \<open>ctx_Err\<close> is only reached after \<open>NewRequestWithContext\<close> has accepted the context,
  which it does not for nil.
\<close>

datatype context_Context = nil_Context | Context "request list \<Rightarrow> string option"

fun ctx_Err :: "context_Context \<Rightarrow> request list \<Rightarrow> string option" where
  "ctx_Err (Context f) log = f log"
| "ctx_Err nil_Context log = None"

text \<open>
  \<open>http.NewRequestWithContext\<close> for the methods GET and POST: it fails on a nil context
  and on a URL that does not parse.
\<close>

definition NewRequestWithContext ::
    "env \<Rightarrow> context_Context \<Rightarrow> http_method \<Rightarrow> string \<Rightarrow> string \<Rightarrow> string + request" where
  "NewRequestWithContext env ctx m u b =
     (case ctx of
        nil_Context \<Rightarrow> Inl ''net/http: nil Context''
      | Context f \<Rightarrow>
          (case url_Parse env u of
             Inl e \<Rightarrow> Inl e
           | Inr parsed \<Rightarrow> Inr \<lparr>Method = m, URL = u, Header = [], Body = b\<rparr>))"

text \<open>\<open>Header.Add\<close> appends a value, \<open>Header.Set\<close> replaces the values of a key.\<close>

definition Header_Add :: "string \<Rightarrow> string \<Rightarrow> request \<Rightarrow> request" where
  "Header_Add k v req = req\<lparr>Header := Header req @ [(k, v)]\<rparr>"

definition Header_Set :: "string \<Rightarrow> string \<Rightarrow> request \<Rightarrow> request" where
  "Header_Set k v req = req\<lparr>Header := filter (\<lambda>p. fst p \<noteq> k) (Header req) @ [(k, v)]\<rparr>"

text \<open>\<open>url.Values.Get\<close>: the first value of the key, or the empty string.\<close>

definition Values_Get :: "(string \<times> string) list \<Rightarrow> string \<Rightarrow> string" where
  "Values_Get vs k = (case map_of vs k of None \<Rightarrow> '''' | Some v \<Rightarrow> v)"

definition HasPrefix :: "string \<Rightarrow> string \<Rightarrow> bool" where
  "HasPrefix s p = (take (length p) s = p)"

definition send :: "request \<Rightarrow> world \<Rightarrow> world" where
  "send req w = w\<lparr>sent := sent w @ [req]\<rparr>"

section \<open>Token exchange (auth.go, authRequest and Authenticate)\<close>

text \<open>
  \<open>authRequest\<close> is a straight line of steps, each of which may return early. The model
  follows it in four parts: the authorization call (lines 89 to 118), the inspection of
  its response (lines 120 to 134), the token call (lines 136 to 163) and the reading of
  its response (lines 165 to 184).
\<close>

definition authorize_params :: "(string \<times> string) list" where
  "authorize_params =
     [(''access_type'', ''offline''),
      (''client_id'', ''09515159-7237-4370-9b40-3806e67c0891''),
      (''response_type'', ''code''),
      (''scope'', ''psn:mobile.v2.core psn:clientapp''),
      (''redirect_uri'', ''com.scee.psxandroid.scecompcall://redirect'')]"

definition authURL :: "env \<Rightarrow> string" where
  "authURL env =
     ''https://ca.account.sony.com/api/authz/v3/oauth/authorize?'' @
       Values_Encode env authorize_params"

definition tokenURL :: string where
  "tokenURL = ''https://ca.account.sony.com/api/authz/v3/oauth/token''"

definition tokenData :: "string \<Rightarrow> (string \<times> string) list" where
  "tokenData code =
     [(''code'', code),
      (''redirect_uri'', ''com.scee.psxandroid.scecompcall://redirect''),
      (''grant_type'', ''authorization_code''),
      (''token_format'', ''jwt'')]"

text \<open>Line 106: the credential travels as a cookie.\<close>

definition add_cookie :: "string \<Rightarrow> request \<Rightarrow> request" where
  "add_cookie npsso req = Header_Add ''Cookie'' (''npsso='' @ npsso) req"

text \<open>Lines 150 and 151: the headers of the token request.\<close>

definition token_headers :: "request \<Rightarrow> request" where
  "token_headers tokenReq =
     Header_Set ''Authorization''
       ''Basic MDk1MTUxNTktNzIzNy00MzcwLTliNDAtMzgwNmU2N2MwODkxOnVjUGprYTV0bnRCMktxc1A=''
       (Header_Set ''Content-Type'' ''application/x-www-form-urlencoded'' tokenReq)"

text \<open>
  Lines 89 to 118: the authorization call. It yields the response only if the request
  could be created, the transport returned a response and the context is then found
  alive.
\<close>

definition authorize_call ::
    "env \<Rightarrow> Client \<Rightarrow> context_Context \<Rightarrow> string \<Rightarrow> world \<Rightarrow> (error + response) \<times> world" where
  "authorize_call env c ctx npsso w =
     (case NewRequestWithContext env ctx MethodGet (authURL env) '''' of
        Inl e \<Rightarrow> (Inl (error_creating_request e), w)
      | Inr req \<Rightarrow>
          (case Do env (httpClient c) (sent w) (add_cookie npsso req) of
             Inl e \<Rightarrow> (Inl (error_sending_request e), send (add_cookie npsso req) w)
           | Inr resp \<Rightarrow>
               (case ctx_Err ctx (sent (send (add_cookie npsso req) w)) of
                  Some e \<Rightarrow> (Inl (request_cancelled e), send (add_cookie npsso req) w)
                | None \<Rightarrow> (Inr resp, send (add_cookie npsso req) w))))"

text \<open>Lines 136 to 163: the token call, with the extracted code.\<close>

definition token_call ::
    "env \<Rightarrow> Client \<Rightarrow> context_Context \<Rightarrow> string \<Rightarrow> world \<Rightarrow> (error + response) \<times> world" where
  "token_call env c ctx code w =
     (case NewRequestWithContext env ctx MethodPost tokenURL
             (Values_Encode env (tokenData code)) of
        Inl e \<Rightarrow> (Inl (error_creating_token_request e), w)
      | Inr tokenReq \<Rightarrow>
          (case Do env (httpClient c) (sent w) (token_headers tokenReq) of
             Inl e \<Rightarrow> (Inl (error_sending_token_request e), send (token_headers tokenReq) w)
           | Inr tokenResp \<Rightarrow>
               (case ctx_Err ctx (sent (send (token_headers tokenReq) w)) of
                  Some e \<Rightarrow> (Inl (token_request_cancelled e), send (token_headers tokenReq) w)
                | None \<Rightarrow> (Inr tokenResp, send (token_headers tokenReq) w))))"

text \<open>
  Lines 165 to 184: the reading of the token response. The two expiry instants come from
  two successive readings of the clock; the lifetime in seconds is multiplied by
  \<open>time.Second\<close> in \<open>int64\<close>.
\<close>

definition set_expiration_times :: "env \<Rightarrow> world \<Rightarrow> Tokens \<Rightarrow> Tokens" where
  "set_expiration_times env w tokenResponse =
     tokenResponse
       \<lparr>AccessExpiresTime :=
          time_Add (Now env (clock_reads w)) (time_Second * AccessExpires tokenResponse),
        RefreshExpiresTime :=
          time_Add (Now env (Suc (clock_reads w))) (time_Second * RefreshExpires tokenResponse)\<rparr>"

definition token_response :: "env \<Rightarrow> response \<Rightarrow> world \<Rightarrow> (error + Tokens) \<times> world" where
  "token_response env tokenResp w =
     (if StatusCode tokenResp \<noteq> 200 then (Inl unable_to_obtain_Authentication_Token, w)
      else
        (case ReadAll tokenResp of
           Inl e \<Rightarrow> (Inl (error_reading_response_body e), w)
         | Inr body \<Rightarrow>
             (case Unmarshal_Tokens env body of
                Inl e \<Rightarrow> (Inl (error_parsing_token_response e), w)
              | Inr tokenResponse \<Rightarrow>
                  (Inr (set_expiration_times env w tokenResponse),
                   w\<lparr>clock_reads := Suc (Suc (clock_reads w))\<rparr>))))"

text \<open>
  \<open>authRequest\<close>. In each call the check of the context comes before the check of the
  status code.
\<close>

definition authRequest ::
    "env \<Rightarrow> Client \<Rightarrow> context_Context \<Rightarrow> string \<Rightarrow> world \<Rightarrow> (error + Tokens) \<times> world" where
  "authRequest env c ctx npsso w =
     (if npsso = '''' then (Inl npsso_parameter_is_required, w)
      else
        (case authorize_call env c ctx npsso w of
           (Inl err, w1) \<Rightarrow> (Inl err, w1)
         | (Inr resp, w1) \<Rightarrow>
             (if StatusCode resp \<noteq> 302 then (Inl error_check_npsso, w1)
              else
                (case url_Parse env (Location resp) of
                   Inl e \<Rightarrow> (Inl (error_parsing_location_URL e), w1)
                 | Inr locationURL \<Rightarrow>
                     (if \<not> HasPrefix (Values_Get locationURL ''code'') ''v3''
                      then (Inl error_check_npsso, w1)
                      else
                        (case token_call env c ctx (Values_Get locationURL ''code'') w1 of
                           (Inl err, w2) \<Rightarrow> (Inl err, w2)
                         | (Inr tokenResp, w2) \<Rightarrow> token_response env tokenResp w2))))))"

text \<open>\<open>Authenticate\<close>: a session is returned only with the tokens of a successful exchange.\<close>

definition Authenticate ::
    "env \<Rightarrow> Client \<Rightarrow> context_Context \<Rightarrow> string \<Rightarrow> world \<Rightarrow> (error + ClientAPI) \<times> world" where
  "Authenticate env c ctx npsso w =
     (case validateNPSSO npsso of
        Some err \<Rightarrow> (Inl (invalid_npsso err), w)
      | None \<Rightarrow>
          (case authRequest env c ctx npsso w of
             (Inl err, w') \<Rightarrow> (Inl (cant_do_auth_request err), w')
           | (Inr tokens, w') \<Rightarrow>
               (Inr \<lparr>Client = c, Tokens = Some tokens, NPSSO = npsso\<rparr>, w')))"

section \<open>Protected calls (request and requestAndUnmarshal)\<close>

text \<open>Lines 47 to 51: the headers of a protected GET.\<close>

definition resource_headers :: "Client \<Rightarrow> Tokens \<Rightarrow> request \<Rightarrow> request" where
  "resource_headers cl tokens req0 =
     (let req =
            Header_Set ''Accept'' ''application/json''
              (Header_Set ''Authorization'' (''Bearer '' @ AccessToken tokens) req0)
      in if lang cl \<noteq> '''' then Header_Set ''Accept-Language'' (lang cl) req else req)"

text \<open>Lines 71 to 89: the switch on the status code, with the body already read.\<close>

definition status_switch :: "string \<Rightarrow> int \<Rightarrow> string \<Rightarrow> error + string" where
  "status_switch url status body =
     (if status = 200 then Inr body
      else if status = 401 then Inr body
      else if status = 403 then Inr body
      else if status = 404 then Inl (resource_not_found url)
      else if status = 429 then Inl rate_limit_exceeded
      else Inl (unexpected_status_code status body))"

text \<open>
  Lines 40 to 89: the GET itself, for a session \<open>c\<close> whose \<open>Tokens\<close> field points to
  \<open>tokens\<close>. It leaves the session as it is.
\<close>

definition dispatch ::
    "env \<Rightarrow> ClientAPI \<Rightarrow> Tokens \<Rightarrow> context_Context \<Rightarrow> string \<Rightarrow> world \<Rightarrow>
       (error + string) \<times> ClientAPI \<times> world" where
  "dispatch env c tokens ctx url w =
     (case NewRequestWithContext env ctx MethodGet url '''' of
        Inl e \<Rightarrow> (Inl (error_creating_request e), c, w)
      | Inr req0 \<Rightarrow>
          (let req = resource_headers (Client c) tokens req0 in
             (case Do env (httpClient (Client c)) (sent w) req of
                Inl e \<Rightarrow> (Inl (error_sending_request e), c, send req w)
              | Inr resp \<Rightarrow>
                  (case ReadAll resp of
                     Inl e \<Rightarrow> (Inl (error_reading_response_body e), c, send req w)
                   | Inr body \<Rightarrow> (status_switch url (StatusCode resp) body, c, send req w)))))"

definition tick :: "world \<Rightarrow> world" where
  "tick w = w\<lparr>clock_reads := Suc (clock_reads w)\<rparr>"

text \<open>
  \<open>request\<close>: the guard on the tokens (lines 27 to 29), the refresh of expired tokens
  (lines 32 to 38), then the GET. The result is the returned value, the session after the
  call and the world after the call.
\<close>

definition request ::
    "env \<Rightarrow> ClientAPI \<Rightarrow> context_Context \<Rightarrow> string \<Rightarrow> world \<Rightarrow>
       (error + string) \<times> ClientAPI \<times> world" where
  "request env c ctx url w =
     (case Tokens c of
        None \<Rightarrow> (Inl invalid_tokens, c, w)
      | Some tokens \<Rightarrow>
          (if AccessToken tokens = '''' then (Inl invalid_tokens, c, w)
           else if time_Before (AccessExpiresTime tokens) (Now env (clock_reads w)) then
             (case authRequest env (Client c) ctx (NPSSO c) (tick w) of
                (Inl err, w1) \<Rightarrow> (Inl (error_refreshing_tokens err), c, w1)
              | (Inr newTokens, w1) \<Rightarrow>
                  dispatch env (c\<lparr>Tokens := Some newTokens\<rparr>) newTokens ctx url w1)
           else dispatch env c tokens ctx url (tick w)))"

text \<open>
  Lines 111 to 124: the decoding of a returned body. \<open>unmarshal_v\<close> is \<open>json.Unmarshal\<close>
  into the caller's value \<open>v\<close>.
\<close>

definition decode_body ::
    "env \<Rightarrow> (string \<Rightarrow> string + 'v) \<Rightarrow> string \<Rightarrow> error + 'v" where
  "decode_body env unmarshal_v body =
     (case Unmarshal_RequestError env body of
        Inl e \<Rightarrow> Inl (error_unmarshaling_response e body)
      | Inr requestError \<Rightarrow>
          (if Code (Error requestError) \<noteq> 0
           then Inl (request_error (Message (Error requestError)))
           else
             (case unmarshal_v body of
                Inl e \<Rightarrow> Inl (error_unmarshaling_response e body)
              | Inr v \<Rightarrow> Inr v)))"

definition requestAndUnmarshal ::
    "env \<Rightarrow> ClientAPI \<Rightarrow> context_Context \<Rightarrow> string \<Rightarrow> (string \<Rightarrow> string + 'v) \<Rightarrow> world \<Rightarrow>
       (error + 'v) \<times> ClientAPI \<times> world" where
  "requestAndUnmarshal env c ctx url unmarshal_v w =
     (case request env c ctx url w of
        (Inl err, c1, w1) \<Rightarrow> (Inl err, c1, w1)
      | (Inr body, c1, w1) \<Rightarrow> (decode_body env unmarshal_v body, c1, w1))"

section \<open>Client construction (client.go)\<close>

text \<open>
  An \<open>http.Client\<close> is a struct of four fields. Of \<open>CheckRedirect\<close> the model tells
  apart nil (the default policy, which follows redirects), the function \<open>NewClient\<close>
  installs, which returns \<open>http.ErrUseLastResponse\<close> so that a redirect response is
  returned unfollowed, and any function of the caller's.
\<close>

datatype CheckRedirect_func = nil_func | use_last_response | caller_func nat

record http_Client =
  Transport :: nat
  CheckRedirect :: CheckRedirect_func
  Jar :: nat
  Timeout :: time_Duration

text \<open>
  Pointers to \<open>http.Client\<close> are addresses in a store; the \<open>i\<close>-th allocated struct
  has address \<open>i\<close>. \<open>http.DefaultClient\<close> is the address 0.
\<close>

type_synonym store = "http_Client list"

definition http_DefaultClient :: nat where
  "http_DefaultClient = 0"

definition deref :: "store \<Rightarrow> nat \<Rightarrow> http_Client option" where
  "deref h a = (if a < length h then Some (h ! a) else None)"

text \<open>
  The values of type \<open>Options\<close>: nil, and the three closures of client.go, each assigning
  one field of the \<open>Client\<close> it is applied to. \<open>WithLanguage\<close> and \<open>WithRegion\<close> return
  theirs after a membership test against tables declared outside these files;
  \<open>WithClient\<close> returns nil with an error for a nil pointer (\<open>None\<close>).
\<close>

datatype Options =
    nil_Options
  | set_lang string
  | set_region string
  | set_httpClient nat

datatype config_error = cannot_use_nil_httpClient

definition WithClient :: "nat option \<Rightarrow> Options \<times> config_error option" where
  "WithClient client =
     (case client of
        None \<Rightarrow> (nil_Options, Some cannot_use_nil_httpClient)
      | Some a \<Rightarrow> (set_httpClient a, None))"

datatype panic = index_out_of_range | nil_function_call | nil_pointer_dereference

text \<open>
  \<open>defaultConfig\<close>; the tables \<open>Languages\<close> and \<open>Regions\<close> are declared outside these
  files and are parameters.
\<close>

definition defaultConfig :: "string list \<Rightarrow> string list \<Rightarrow> panic + Client" where
  "defaultConfig Languages Regions =
     (case Languages of
        [] \<Rightarrow> Inl index_out_of_range
      | l # ls \<Rightarrow>
          (case Regions of
             [] \<Rightarrow> Inl index_out_of_range
           | r # rs \<Rightarrow> Inr \<lparr>httpClient = http_DefaultClient, lang = l, region = r\<rparr>))"

text \<open>The loop of \<open>NewClient\<close> over the options.\<close>

fun apply_opts :: "Options list \<Rightarrow> Client \<Rightarrow> panic + Client" where
  "apply_opts [] c = Inr c"
| "apply_opts (nil_Options # opts) c = Inl nil_function_call"
| "apply_opts (set_lang l # opts) c = apply_opts opts (c\<lparr>lang := l\<rparr>)"
| "apply_opts (set_region r # opts) c = apply_opts opts (c\<lparr>region := r\<rparr>)"
| "apply_opts (set_httpClient a # opts) c = apply_opts opts (c\<lparr>httpClient := a\<rparr>)"

text \<open>
  \<open>NewClient\<close> copies the struct its configuration points to, sets \<open>CheckRedirect\<close> on
  the copy and returns a \<open>Client\<close> that points to the copy, which is newly allocated.
\<close>

definition NewClient ::
    "string list \<Rightarrow> string list \<Rightarrow> Options list \<Rightarrow> store \<Rightarrow> panic + Client \<times> store" where
  "NewClient Languages Regions opts h =
     (case defaultConfig Languages Regions of
        Inl p \<Rightarrow> Inl p
      | Inr c0 \<Rightarrow>
          (case apply_opts opts c0 of
             Inl p \<Rightarrow> Inl p
           | Inr c \<Rightarrow>
               (case deref h (httpClient c) of
                  None \<Rightarrow> Inl nil_pointer_dereference
                | Some cl \<Rightarrow>
                    Inr (\<lparr>httpClient = length h, lang = lang c, region = region c\<rparr>,
                         h @ [cl\<lparr>CheckRedirect := use_last_response\<rparr>]))))"

section \<open>Fake endpoints\<close>

text \<open>
  Concrete collaborators on which the properties below are exercised: a transport that
  answers the \<open>n\<close>-th request with the \<open>n\<close>-th entry of a script, a clock that advances by
  a nanosecond at each reading, and small stand-ins for the URL parser and the JSON
  decoder that know a handful of inputs.
\<close>

definition scripted :: "(string + response) list \<Rightarrow> nat \<Rightarrow> request list \<Rightarrow> request \<Rightarrow> string + response" where
  "scripted answers cl log req =
     (if length log < length answers then answers ! length log else Inl ''connection refused'')"

definition found_response :: "string \<Rightarrow> response" where
  "found_response loc = \<lparr>StatusCode = 302, Location = loc, ReadAll = Inr ''''\<rparr>"

definition body_response :: "int \<Rightarrow> string \<Rightarrow> response" where
  "body_response status body = \<lparr>StatusCode = status, Location = '''', ReadAll = Inr body\<rparr>"

definition fake_url_Parse :: "string \<Rightarrow> string + (string \<times> string) list" where
  "fake_url_Parse u =
     (if u = ''%'' then Inl ''invalid URL escape''
      else if u = ''cb?code=v3abc'' then Inr [(''code'', ''v3abc'')]
      else if u = ''cb?code=abc'' then Inr [(''code'', ''abc'')]
      else Inr [])"

definition fake_tokens :: "64 word \<Rightarrow> 64 word \<Rightarrow> Tokens" where
  "fake_tokens expires_in refresh_token_expires_in =
     \<lparr>AccessToken = ''A'', RefreshToken = ''B'',
      AccessExpires = expires_in, RefreshExpires = refresh_token_expires_in,
      AccessExpiresTime = 0, RefreshExpiresTime = 0\<rparr>"

definition fake_Unmarshal_Tokens :: "string \<Rightarrow> string + Tokens" where
  "fake_Unmarshal_Tokens body =
     (if body = ''hour'' then Inr (fake_tokens 3600 5184000)
      else if body = ''negative'' then Inr (fake_tokens (- 1) 5184000)
      else if body = ''huge'' then Inr (fake_tokens 9223372037 5184000)
      else Inl ''invalid character'')"

definition fake_RequestError :: "int \<Rightarrow> string \<Rightarrow> RequestError" where
  "fake_RequestError code message =
     \<lparr>Error = \<lparr>Reason = '''', Source = '''', Code = code, Message = message,
        ReferenceID = ''''\<rparr>\<rparr>"

definition fake_Unmarshal_RequestError :: "string \<Rightarrow> string + RequestError" where
  "fake_Unmarshal_RequestError body =
     (if body = ''denied'' then Inr (fake_RequestError 2105356 ''Access denied'')
      else if body = ''{'' then Inl ''unexpected end of JSON input''
      else Inr (fake_RequestError 0 ''''))"

definition fake_Unmarshal_v :: "string \<Rightarrow> string + nat" where
  "fake_Unmarshal_v body = (if body = ''[]'' then Inl ''cannot unmarshal array'' else Inr (length body))"

definition fake_env :: "(string + response) list \<Rightarrow> env" where
  "fake_env answers =
     \<lparr>Do = scripted answers,
      Now = (\<lambda>n. 1700000000000000000 + int n),
      url_Parse = fake_url_Parse,
      Values_Encode = (\<lambda>vs. concat (map (\<lambda>p. fst p @ ''='' @ snd p @ ''&'') vs)),
      Unmarshal_Tokens = fake_Unmarshal_Tokens,
      Unmarshal_RequestError = fake_Unmarshal_RequestError\<rparr>"

definition alive :: context_Context where
  "alive = Context (\<lambda>log. None)"

definition cancelled :: context_Context where
  "cancelled = Context (\<lambda>log. Some ''context canceled'')"

definition cancelled_after :: "nat \<Rightarrow> context_Context" where
  "cancelled_after n =
     Context (\<lambda>log. if n \<le> length log then Some ''context canceled'' else None)"

definition fake_Client :: Client where
  "fake_Client = \<lparr>httpClient = 1, lang = ''en'', region = ''us''\<rparr>"

definition idle :: world where
  "idle = \<lparr>sent = [], clock_reads = 0\<rparr>"

definition fake_session :: "time_Time \<Rightarrow> ClientAPI" where
  "fake_session expiry =
     \<lparr>Client = fake_Client,
      Tokens = Some ((fake_tokens 3600 5184000)\<lparr>AccessExpiresTime := expiry\<rparr>),
      NPSSO = ''secret''\<rparr>"

section \<open>Credential validation: properties\<close>

text \<open>
  C7. \<open>validateNPSSO\<close> fails with \<open>ErrNPSSOEmpty\<close> exactly on the empty string, fails
  with \<open>ErrNPSSOLength\<close> exactly on the non-empty strings whose length is not 64, and
  succeeds on every string of length 64 (and on no other). It is a function of the
  credential alone: no transport, clock or session is among its arguments.
\<close>

theorem validateNPSSO_kinds:
  "(validateNPSSO npsso = Some ErrNPSSOEmpty \<longleftrightarrow> npsso = '''') \<and>
   (validateNPSSO npsso = Some ErrNPSSOLength \<longleftrightarrow> npsso \<noteq> '''' \<and> length npsso \<noteq> 64) \<and>
   (validateNPSSO npsso = None \<longleftrightarrow> length npsso = 64)"
  by (auto simp: validateNPSSO_def)

theorem validateNPSSO_kinds_witness:
  "validateNPSSO '''' = Some ErrNPSSOEmpty \<and>
   validateNPSSO ''abc'' = Some ErrNPSSOLength \<and>
   validateNPSSO (replicate 64 CHR ''a'') = None"
  using validateNPSSO_kinds [of "''''"] validateNPSSO_kinds [of "''abc''"]
    validateNPSSO_kinds [of "replicate 64 CHR ''a''"]
  by simp

section \<open>Auxiliary facts\<close>

lemma sint_Second_mult:
  assumes "- 9223372036 \<le> sint x" "sint x \<le> 9223372036"
  shows "sint (time_Second * x) = 1000000000 * sint x"
proof -
  have "sint (time_Second * x) = signed_take_bit 63 (sint (1000000000 :: 64 word) * sint x)"
    unfolding time_Second_def by (simp add: sint_word_ariths)
  also have "sint (1000000000 :: 64 word) = 1000000000" by simp
  also have "signed_take_bit 63 (1000000000 * sint x) = 1000000000 * sint x"
    using assms by (intro signed_take_bit_int_eq_self) simp_all
  finally show ?thesis .
qed

lemma authorize_call_world:
  assumes "authorize_call env c ctx npsso w = (r, w1)"
  shows "clock_reads w1 = clock_reads w \<and>
         (sent w1 = sent w \<or>
          (\<exists>req. sent w1 = sent w @ [req] \<and> Method req = MethodGet \<and> URL req = authURL env))"
  using assms
  by (auto simp: authorize_call_def NewRequestWithContext_def send_def add_cookie_def
        Header_Add_def
      split: sum.splits option.splits context_Context.splits)

lemma authorize_call_Inr_world:
  assumes "authorize_call env c ctx npsso w = (Inr resp, w1)"
  shows "clock_reads w1 = clock_reads w \<and>
         (\<exists>req. sent w1 = sent w @ [req] \<and> Method req = MethodGet \<and> URL req = authURL env)"
  using assms
  by (auto simp: authorize_call_def NewRequestWithContext_def send_def add_cookie_def
        Header_Add_def
      split: sum.splits option.splits context_Context.splits)

lemma token_call_world:
  assumes "token_call env c ctx code w = (r, w1)"
  shows "clock_reads w1 = clock_reads w \<and>
         (sent w1 = sent w \<or>
          (\<exists>req. sent w1 = sent w @ [req] \<and> Method req = MethodPost \<and> URL req = tokenURL))"
  using assms
  by (auto simp: token_call_def NewRequestWithContext_def send_def token_headers_def
        Header_Set_def
      split: sum.splits option.splits context_Context.splits)

lemma authRequest_Inr:
  assumes "authRequest env c ctx npsso w = (Inr t, w')"
  shows "\<exists>resp w1 q tokenResp w2 body tr.
           npsso \<noteq> '''' \<and>
           authorize_call env c ctx npsso w = (Inr resp, w1) \<and>
           StatusCode resp = 302 \<and>
           url_Parse env (Location resp) = Inr q \<and>
           HasPrefix (Values_Get q ''code'') ''v3'' \<and>
           token_call env c ctx (Values_Get q ''code'') w1 = (Inr tokenResp, w2) \<and>
           StatusCode tokenResp = 200 \<and>
           ReadAll tokenResp = Inr body \<and>
           Unmarshal_Tokens env body = Inr tr \<and>
           t = set_expiration_times env w2 tr \<and>
           w' = w2\<lparr>clock_reads := Suc (Suc (clock_reads w2))\<rparr>"
  using assms
  by (auto simp: authRequest_def token_response_def
      split: if_splits sum.splits prod.splits)


lemma authRequest_Inr_clock:
  assumes "authRequest env c ctx npsso w = (Inr t, w')"
  shows "\<exists>body tr.
           Unmarshal_Tokens env body = Inr tr \<and>
           t = set_expiration_times env w tr"
proof -
  from authRequest_Inr [OF assms] obtain resp w1 q tokenResp w2 body tr where
    a: "authorize_call env c ctx npsso w = (Inr resp, w1)" and
    b: "token_call env c ctx (Values_Get q ''code'') w1 = (Inr tokenResp, w2)" and
    d: "Unmarshal_Tokens env body = Inr tr" and
    t: "t = set_expiration_times env w2 tr"
    by blast
  have "clock_reads w2 = clock_reads w"
    using authorize_call_world [OF a] token_call_world [OF b] by simp
  then have "set_expiration_times env w2 tr = set_expiration_times env w tr"
    by (simp add: set_expiration_times_def)
  with d t show ?thesis by blast
qed

subsection \<open>Runs against the fake endpoints\<close>

lemmas exchange_defs =
  authRequest_def authorize_call_def token_call_def token_response_def
  set_expiration_times_def NewRequestWithContext_def send_def add_cookie_def
  token_headers_def Header_Add_def Header_Set_def authURL_def tokenURL_def
  authorize_params_def tokenData_def Values_Get_def HasPrefix_def time_Add_def
  time_Second_def time_Before_def

lemmas fake_defs =
  fake_env_def scripted_def found_response_def body_response_def fake_url_Parse_def
  fake_Unmarshal_Tokens_def fake_tokens_def fake_RequestError_def
  fake_Unmarshal_RequestError_def fake_Unmarshal_v_def fake_Client_def alive_def
  cancelled_def cancelled_after_def idle_def fake_session_def

section \<open>Outcomes of the token exchange\<close>

lemma authorize_call_alive:
  assumes "NewRequestWithContext env ctx MethodGet (authURL env) '''' = Inr req"
    and "Do env (httpClient c) (sent w) (add_cookie npsso req) = Inr resp"
    and "ctx_Err ctx (sent (send (add_cookie npsso req) w)) = None"
  shows "authorize_call env c ctx npsso w = (Inr resp, send (add_cookie npsso req) w)"
  using assms by (simp add: authorize_call_def)

lemma authorize_call_cancelled:
  assumes "NewRequestWithContext env ctx MethodGet (authURL env) '''' = Inr req"
    and "Do env (httpClient c) (sent w) (add_cookie npsso req) = Inr resp"
    and "ctx_Err ctx (sent (send (add_cookie npsso req) w)) = Some e"
  shows "authorize_call env c ctx npsso w =
         (Inl (request_cancelled e), send (add_cookie npsso req) w)"
  using assms by (simp add: authorize_call_def)

lemma token_call_alive:
  assumes "NewRequestWithContext env ctx MethodPost tokenURL
             (Values_Encode env (tokenData code)) = Inr tokenReq"
    and "Do env (httpClient c) (sent w1) (token_headers tokenReq) = Inr tokenResp"
    and "ctx_Err ctx (sent (send (token_headers tokenReq) w1)) = None"
  shows "token_call env c ctx code w1 = (Inr tokenResp, send (token_headers tokenReq) w1)"
  using assms by (simp add: token_call_def)

lemma token_call_cancelled:
  assumes "NewRequestWithContext env ctx MethodPost tokenURL
             (Values_Encode env (tokenData code)) = Inr tokenReq"
    and "Do env (httpClient c) (sent w1) (token_headers tokenReq) = Inr tokenResp"
    and "ctx_Err ctx (sent (send (token_headers tokenReq) w1)) = Some e"
  shows "token_call env c ctx code w1 =
         (Inl (token_request_cancelled e), send (token_headers tokenReq) w1)"
  using assms by (simp add: token_call_def)

lemma token_call_Inr:
  assumes "token_call env c ctx code w1 = (Inr tokenResp, w2)"
  shows "\<exists>tokenReq.
           NewRequestWithContext env ctx MethodPost tokenURL
             (Values_Encode env (tokenData code)) = Inr tokenReq \<and>
           Do env (httpClient c) (sent w1) (token_headers tokenReq) = Inr tokenResp \<and>
           w2 = send (token_headers tokenReq) w1 \<and>
           ctx_Err ctx (sent w2) = None"
  using assms by (auto simp: token_call_def split: sum.splits option.splits)

text \<open>
  C2, as amended. Take a run of the exchange with a non-empty credential in which the
  authorization request was created and the transport returned a response \<open>resp\<close> to it;
  \<open>w1\<close> is the world after that call, in which the authorization request is the last one
  sent.
  \<^item> If the context is then found cancelled, the exchange fails with \<open>request cancelled\<close>
    in the world \<open>w1\<close>, whatever the status of \<open>resp\<close>.
  \<^item> If the context is found alive and the status of \<open>resp\<close> is not 302, or it is 302 and the
    \<open>code\<close> of its parsed \<open>Location\<close> does not begin with \<open>v3\<close>, the exchange fails with
    \<open>error: check npsso\<close> in the world \<open>w1\<close>: the token call is not reached.
  \<^item> Otherwise (context alive, 302, a \<open>code\<close> that begins with \<open>v3\<close>), when the token request
    was created and the transport returned a response \<open>tokenResp\<close> to it, with \<open>w2\<close> the
    world after that call: if the context is then found cancelled, the exchange fails with
    \<open>token request cancelled\<close>; if it is found alive, a status other than 200 fails with
    the token-exchange error, a status 200 whose body was read and does not decode fails
    with the token-parsing error, and a status 200 whose body decodes yields the decoded
    Token Pair with its two expiry instants set.
  \<^item> A Token Pair is returned only when the context was found alive after both calls, the
    authorization response was a 302 with a \<open>v3\<close> code and the token response a 200 with
    a decodable body.
\<close>

theorem authRequest_outcomes:
  assumes "npsso \<noteq> ''''"
    and "NewRequestWithContext env ctx MethodGet (authURL env) '''' = Inr req"
    and "Do env (httpClient c) (sent w) (add_cookie npsso req) = Inr resp"
    and "w1 = send (add_cookie npsso req) w"
  shows
    "(\<forall>e. ctx_Err ctx (sent w1) = Some e \<longrightarrow>
        authRequest env c ctx npsso w = (Inl (request_cancelled e), w1)) \<and>
     (ctx_Err ctx (sent w1) = None \<and> StatusCode resp \<noteq> 302 \<longrightarrow>
        authRequest env c ctx npsso w = (Inl error_check_npsso, w1)) \<and>
     (\<forall>q. ctx_Err ctx (sent w1) = None \<and> StatusCode resp = 302 \<and>
          url_Parse env (Location resp) = Inr q \<and>
          \<not> HasPrefix (Values_Get q ''code'') ''v3'' \<longrightarrow>
        authRequest env c ctx npsso w = (Inl error_check_npsso, w1)) \<and>
     sent w1 = sent w @ [add_cookie npsso req] \<and>
     (\<forall>q tokenReq tokenResp w2.
        ctx_Err ctx (sent w1) = None \<and> StatusCode resp = 302 \<and>
        url_Parse env (Location resp) = Inr q \<and>
        HasPrefix (Values_Get q ''code'') ''v3'' \<and>
        NewRequestWithContext env ctx MethodPost tokenURL
          (Values_Encode env (tokenData (Values_Get q ''code''))) = Inr tokenReq \<and>
        Do env (httpClient c) (sent w1) (token_headers tokenReq) = Inr tokenResp \<and>
        w2 = send (token_headers tokenReq) w1 \<longrightarrow>
          (\<forall>e. ctx_Err ctx (sent w2) = Some e \<longrightarrow>
             authRequest env c ctx npsso w = (Inl (token_request_cancelled e), w2)) \<and>
          (ctx_Err ctx (sent w2) = None \<and> StatusCode tokenResp \<noteq> 200 \<longrightarrow>
             authRequest env c ctx npsso w = (Inl unable_to_obtain_Authentication_Token, w2)) \<and>
          (\<forall>body e. ctx_Err ctx (sent w2) = None \<and> StatusCode tokenResp = 200 \<and>
               ReadAll tokenResp = Inr body \<and> Unmarshal_Tokens env body = Inl e \<longrightarrow>
             authRequest env c ctx npsso w = (Inl (error_parsing_token_response e), w2)) \<and>
          (\<forall>body tr. ctx_Err ctx (sent w2) = None \<and> StatusCode tokenResp = 200 \<and>
               ReadAll tokenResp = Inr body \<and> Unmarshal_Tokens env body = Inr tr \<longrightarrow>
             fst (authRequest env c ctx npsso w) = Inr (set_expiration_times env w2 tr))) \<and>
     (\<forall>t w'. authRequest env c ctx npsso w = (Inr t, w') \<longrightarrow>
        ctx_Err ctx (sent w1) = None \<and> StatusCode resp = 302 \<and>
        (\<exists>q tokenReq tokenResp w2 body tr.
           url_Parse env (Location resp) = Inr q \<and>
           HasPrefix (Values_Get q ''code'') ''v3'' \<and>
           NewRequestWithContext env ctx MethodPost tokenURL
             (Values_Encode env (tokenData (Values_Get q ''code''))) = Inr tokenReq \<and>
           Do env (httpClient c) (sent w1) (token_headers tokenReq) = Inr tokenResp \<and>
           w2 = send (token_headers tokenReq) w1 \<and>
           ctx_Err ctx (sent w2) = None \<and>
           StatusCode tokenResp = 200 \<and> ReadAll tokenResp = Inr body \<and>
           Unmarshal_Tokens env body = Inr tr \<and> t = set_expiration_times env w2 tr))"
proof (intro conjI allI impI)
  fix e assume "ctx_Err ctx (sent w1) = Some e"
  with assms authorize_call_cancelled [of env ctx req c w npsso resp e]
  show "authRequest env c ctx npsso w = (Inl (request_cancelled e), w1)"
    by (simp add: authRequest_def)
next
  assume "ctx_Err ctx (sent w1) = None \<and> StatusCode resp \<noteq> 302"
  with assms authorize_call_alive [of env ctx req c w npsso resp]
  show "authRequest env c ctx npsso w = (Inl error_check_npsso, w1)"
    by (simp add: authRequest_def)
next
  fix q
  assume "ctx_Err ctx (sent w1) = None \<and> StatusCode resp = 302 \<and>
          url_Parse env (Location resp) = Inr q \<and>
          \<not> HasPrefix (Values_Get q ''code'') ''v3''"
  with assms authorize_call_alive [of env ctx req c w npsso resp]
  show "authRequest env c ctx npsso w = (Inl error_check_npsso, w1)"
    by (simp add: authRequest_def)
next
  show "sent w1 = sent w @ [add_cookie npsso req]"
    by (simp add: assms(4) send_def)
next
  fix q tokenReq tokenResp w2 e
  assume h: "ctx_Err ctx (sent w1) = None \<and> StatusCode resp = 302 \<and>
        url_Parse env (Location resp) = Inr q \<and>
        HasPrefix (Values_Get q ''code'') ''v3'' \<and>
        NewRequestWithContext env ctx MethodPost tokenURL
          (Values_Encode env (tokenData (Values_Get q ''code''))) = Inr tokenReq \<and>
        Do env (httpClient c) (sent w1) (token_headers tokenReq) = Inr tokenResp \<and>
        w2 = send (token_headers tokenReq) w1"
    and e: "ctx_Err ctx (sent w2) = Some e"
  from h e have "token_call env c ctx (Values_Get q ''code'') w1 =
      (Inl (token_request_cancelled e), w2)"
    using token_call_cancelled [of env ctx "Values_Get q ''code''" tokenReq c w1 tokenResp e]
    by simp
  with h assms authorize_call_alive [of env ctx req c w npsso resp]
  show "authRequest env c ctx npsso w = (Inl (token_request_cancelled e), w2)"
    by (simp add: authRequest_def)
next
  fix q tokenReq tokenResp w2
  assume h: "ctx_Err ctx (sent w1) = None \<and> StatusCode resp = 302 \<and>
        url_Parse env (Location resp) = Inr q \<and>
        HasPrefix (Values_Get q ''code'') ''v3'' \<and>
        NewRequestWithContext env ctx MethodPost tokenURL
          (Values_Encode env (tokenData (Values_Get q ''code''))) = Inr tokenReq \<and>
        Do env (httpClient c) (sent w1) (token_headers tokenReq) = Inr tokenResp \<and>
        w2 = send (token_headers tokenReq) w1"
    and s: "ctx_Err ctx (sent w2) = None \<and> StatusCode tokenResp \<noteq> 200"
  from h s have "token_call env c ctx (Values_Get q ''code'') w1 = (Inr tokenResp, w2)"
    using token_call_alive [of env ctx "Values_Get q ''code''" tokenReq c w1 tokenResp]
    by simp
  with h s assms authorize_call_alive [of env ctx req c w npsso resp]
  show "authRequest env c ctx npsso w = (Inl unable_to_obtain_Authentication_Token, w2)"
    by (simp add: authRequest_def token_response_def)
next
  fix q tokenReq tokenResp w2 body e
  assume h: "ctx_Err ctx (sent w1) = None \<and> StatusCode resp = 302 \<and>
        url_Parse env (Location resp) = Inr q \<and>
        HasPrefix (Values_Get q ''code'') ''v3'' \<and>
        NewRequestWithContext env ctx MethodPost tokenURL
          (Values_Encode env (tokenData (Values_Get q ''code''))) = Inr tokenReq \<and>
        Do env (httpClient c) (sent w1) (token_headers tokenReq) = Inr tokenResp \<and>
        w2 = send (token_headers tokenReq) w1"
    and s: "ctx_Err ctx (sent w2) = None \<and> StatusCode tokenResp = 200 \<and>
               ReadAll tokenResp = Inr body \<and> Unmarshal_Tokens env body = Inl e"
  from h s have "token_call env c ctx (Values_Get q ''code'') w1 = (Inr tokenResp, w2)"
    using token_call_alive [of env ctx "Values_Get q ''code''" tokenReq c w1 tokenResp]
    by simp
  with h s assms authorize_call_alive [of env ctx req c w npsso resp]
  show "authRequest env c ctx npsso w = (Inl (error_parsing_token_response e), w2)"
    by (simp add: authRequest_def token_response_def)
next
  fix q tokenReq tokenResp w2 body tr
  assume h: "ctx_Err ctx (sent w1) = None \<and> StatusCode resp = 302 \<and>
        url_Parse env (Location resp) = Inr q \<and>
        HasPrefix (Values_Get q ''code'') ''v3'' \<and>
        NewRequestWithContext env ctx MethodPost tokenURL
          (Values_Encode env (tokenData (Values_Get q ''code''))) = Inr tokenReq \<and>
        Do env (httpClient c) (sent w1) (token_headers tokenReq) = Inr tokenResp \<and>
        w2 = send (token_headers tokenReq) w1"
    and s: "ctx_Err ctx (sent w2) = None \<and> StatusCode tokenResp = 200 \<and>
               ReadAll tokenResp = Inr body \<and> Unmarshal_Tokens env body = Inr tr"
  from h s have "token_call env c ctx (Values_Get q ''code'') w1 = (Inr tokenResp, w2)"
    using token_call_alive [of env ctx "Values_Get q ''code''" tokenReq c w1 tokenResp]
    by simp
  with h s assms authorize_call_alive [of env ctx req c w npsso resp]
  show "fst (authRequest env c ctx npsso w) = Inr (set_expiration_times env w2 tr)"
    by (simp add: authRequest_def token_response_def)
next
  fix t w' assume run: "authRequest env c ctx npsso w = (Inr t, w')"
  show "ctx_Err ctx (sent w1) = None"
  proof (cases "ctx_Err ctx (sent w1)")
    case None
    then show ?thesis .
  next
    case (Some e)
    with assms authorize_call_cancelled [of env ctx req c w npsso resp e] run
    show ?thesis by (simp add: authRequest_def)
  qed
next
  fix t w' assume run: "authRequest env c ctx npsso w = (Inr t, w')"
  from authRequest_Inr [OF run] obtain resp' w1' where
    "authorize_call env c ctx npsso w = (Inr resp', w1')" "StatusCode resp' = 302"
    by blast
  with assms show "StatusCode resp = 302"
    by (auto simp: authorize_call_def split: option.splits)
next
  fix t w' assume run: "authRequest env c ctx npsso w = (Inr t, w')"
  from authRequest_Inr [OF run] obtain resp' w1' q tokenResp w2 body tr where
    a: "authorize_call env c ctx npsso w = (Inr resp', w1')" and
    rest: "url_Parse env (Location resp') = Inr q"
      "HasPrefix (Values_Get q ''code'') ''v3''"
      "token_call env c ctx (Values_Get q ''code'') w1' = (Inr tokenResp, w2)"
      "StatusCode tokenResp = 200" "ReadAll tokenResp = Inr body"
      "Unmarshal_Tokens env body = Inr tr" "t = set_expiration_times env w2 tr"
    by blast
  from a assms have same: "resp' = resp" "w1' = w1"
    by (auto simp: authorize_call_def split: option.splits)
  from token_call_Inr [OF rest(3)] obtain tokenReq where
    "NewRequestWithContext env ctx MethodPost tokenURL
       (Values_Encode env (tokenData (Values_Get q ''code''))) = Inr tokenReq"
    "Do env (httpClient c) (sent w1') (token_headers tokenReq) = Inr tokenResp"
    "w2 = send (token_headers tokenReq) w1'" "ctx_Err ctx (sent w2) = None"
    by blast
  with rest same
  show "\<exists>q tokenReq tokenResp w2 body tr.
           url_Parse env (Location resp) = Inr q \<and>
           HasPrefix (Values_Get q ''code'') ''v3'' \<and>
           NewRequestWithContext env ctx MethodPost tokenURL
             (Values_Encode env (tokenData (Values_Get q ''code''))) = Inr tokenReq \<and>
           Do env (httpClient c) (sent w1) (token_headers tokenReq) = Inr tokenResp \<and>
           w2 = send (token_headers tokenReq) w1 \<and>
           ctx_Err ctx (sent w2) = None \<and>
           StatusCode tokenResp = 200 \<and> ReadAll tokenResp = Inr body \<and>
           Unmarshal_Tokens env body = Inr tr \<and> t = set_expiration_times env w2 tr"
    by blast
qed

lemma fake_NewRequestWithContext:
  assumes "u \<noteq> ''%''"
  shows "NewRequestWithContext (fake_env answers) (Context f) m u b =
         Inr \<lparr>Method = m, URL = u, Header = [], Body = b\<rparr>"
  using assms by (simp add: NewRequestWithContext_def fake_env_def fake_url_Parse_def)

lemma fake_authorize_request:
  "NewRequestWithContext (fake_env answers) (Context f) MethodGet (authURL (fake_env answers))
     '''' =
   Inr \<lparr>Method = MethodGet, URL = authURL (fake_env answers), Header = [], Body = ''''\<rparr>"
  by (rule fake_NewRequestWithContext) (simp add: authURL_def)

lemma fake_token_request:
  "NewRequestWithContext (fake_env answers) (Context f) MethodPost tokenURL b =
   Inr \<lparr>Method = MethodPost, URL = tokenURL, Header = [], Body = b\<rparr>"
  by (rule fake_NewRequestWithContext) (simp add: tokenURL_def)

lemma fake_Do:
  "Do (fake_env answers) cl log r =
   (if length log < length answers then answers ! length log else Inl ''connection refused'')"
  by (simp add: fake_env_def scripted_def)

lemma fake_Do_first:
  "Do (fake_env (Inr resp # rest)) cl (sent idle) r = Inr resp"
  by (simp add: fake_Do idle_def)

lemma fake_token_step:
  assumes "f [r] = None"
  shows "ctx_Err (Context f) (sent (send r idle)) = None \<and>
     StatusCode (found_response ''cb?code=v3abc'') = 302 \<and>
     url_Parse (fake_env [Inr (found_response ''cb?code=v3abc''), Inr tresp])
       (Location (found_response ''cb?code=v3abc'')) = Inr [(''code'', ''v3abc'')] \<and>
     HasPrefix (Values_Get [(''code'', ''v3abc'')] ''code'') ''v3'' \<and>
     NewRequestWithContext (fake_env [Inr (found_response ''cb?code=v3abc''), Inr tresp])
       (Context f) MethodPost tokenURL
       (Values_Encode (fake_env [Inr (found_response ''cb?code=v3abc''), Inr tresp])
          (tokenData (Values_Get [(''code'', ''v3abc'')] ''code''))) =
       Inr \<lparr>Method = MethodPost, URL = tokenURL, Header = [],
            Body = Values_Encode
                     (fake_env [Inr (found_response ''cb?code=v3abc''), Inr tresp])
                     (tokenData (Values_Get [(''code'', ''v3abc'')] ''code''))\<rparr> \<and>
     Do (fake_env [Inr (found_response ''cb?code=v3abc''), Inr tresp]) cl
       (sent (send r idle)) r' = Inr tresp \<and>
     send r' (send r idle) = send r' (send r idle)"
proof (intro conjI)
  show "ctx_Err (Context f) (sent (send r idle)) = None"
    using assms by (simp add: send_def idle_def)
  show "StatusCode (found_response ''cb?code=v3abc'') = 302"
    by (simp add: found_response_def)
  show "url_Parse (fake_env [Inr (found_response ''cb?code=v3abc''), Inr tresp])
       (Location (found_response ''cb?code=v3abc'')) = Inr [(''code'', ''v3abc'')]"
    by (simp add: fake_env_def fake_url_Parse_def found_response_def)
  show "HasPrefix (Values_Get [(''code'', ''v3abc'')] ''code'') ''v3''"
    by (simp add: Values_Get_def HasPrefix_def)
  show "Do (fake_env [Inr (found_response ''cb?code=v3abc''), Inr tresp]) cl
       (sent (send r idle)) r' = Inr tresp"
    by (simp add: fake_Do send_def idle_def)
qed (simp_all add: fake_token_request)

text \<open>
  The amended C2 at five fake runs: a 500 from the authorization endpoint, a redirect whose
  code lacks the prefix, a 503 from the token endpoint, a 200 with an undecodable body, and
  a context cancelled before the check that follows the token call.
\<close>

theorem authRequest_outcomes_witness:
  "fst (authRequest (fake_env [Inr (body_response 500 ''oops'')])
          fake_Client alive ''secret'' idle) = Inl error_check_npsso \<and>
   fst (authRequest (fake_env [Inr (found_response ''cb?code=abc'')])
          fake_Client alive ''secret'' idle) = Inl error_check_npsso \<and>
   fst (authRequest
          (fake_env [Inr (found_response ''cb?code=v3abc''), Inr (body_response 503 ''busy'')])
          fake_Client alive ''secret'' idle) = Inl unable_to_obtain_Authentication_Token \<and>
   fst (authRequest
          (fake_env [Inr (found_response ''cb?code=v3abc''), Inr (body_response 200 ''<html>'')])
          fake_Client alive ''secret'' idle) =
     Inl (error_parsing_token_response ''invalid character'') \<and>
   fst (authRequest
          (fake_env [Inr (found_response ''cb?code=v3abc''), Inr (body_response 200 ''hour'')])
          fake_Client (cancelled_after 2) ''secret'' idle) =
     Inl (token_request_cancelled ''context canceled'')"
proof -
  have ne: "''secret'' \<noteq> ''''" by simp
  let ?found = "found_response ''cb?code=v3abc''"
  let ?none = "\<lambda>log :: request list. None :: string option"
  let ?late = "\<lambda>log :: request list.
    if 2 \<le> length log then Some ''context canceled'' else None"
  have after1: "sent (send r idle) = [r]" for r
    by (simp add: send_def idle_def)
  have after2: "sent (send r' (send r idle)) = [r, r']" for r r'
    by (simp add: send_def idle_def)
  have err: "ctx_Err alive log = None" "ctx_Err (cancelled_after 2) [r] = None"
    "ctx_Err (cancelled_after 2) [r, r'] = Some ''context canceled''" for log r r'
    by (simp_all add: alive_def cancelled_after_def)
  have 1: "fst (authRequest (fake_env [Inr (body_response 500 ''oops'')])
          fake_Client alive ''secret'' idle) = Inl error_check_npsso"
    using authRequest_outcomes [where c = fake_Client, OF ne
        fake_authorize_request [where answers = "[Inr (body_response 500 ''oops'')]"
          and f = ?none]
        fake_Do_first refl]
    by (simp add: after1 err body_response_def alive_def [symmetric])
  have 2: "fst (authRequest (fake_env [Inr (found_response ''cb?code=abc'')])
          fake_Client alive ''secret'' idle) = Inl error_check_npsso"
    using authRequest_outcomes [where c = fake_Client, OF ne
        fake_authorize_request [where answers = "[Inr (found_response ''cb?code=abc'')]"
          and f = ?none]
        fake_Do_first refl,
        THEN conjunct2, THEN conjunct2, THEN conjunct1, rule_format,
        of "[(''code'', ''abc'')]"]
    by (simp add: after1 err found_response_def alive_def [symmetric] fake_env_def
        fake_url_Parse_def Values_Get_def HasPrefix_def)
  have 3: "fst (authRequest (fake_env [Inr ?found, Inr (body_response 503 ''busy'')])
      fake_Client alive ''secret'' idle) = Inl unable_to_obtain_Authentication_Token"
    using authRequest_outcomes [where c = fake_Client, OF ne
        fake_authorize_request [where answers = "[Inr ?found, Inr (body_response 503 ''busy'')]"
          and f = ?none]
        fake_Do_first refl,
        THEN conjunct2, THEN conjunct2, THEN conjunct2, THEN conjunct2,
        THEN conjunct1, rule_format,
        OF fake_token_step [where f = ?none and tresp = "body_response 503 ''busy''"]]
    by (simp add: alive_def [symmetric] after1 after2 err body_response_def)
  have 4: "fst (authRequest (fake_env [Inr ?found, Inr (body_response 200 ''<html>'')])
      fake_Client alive ''secret'' idle) =
      Inl (error_parsing_token_response ''invalid character'')"
    using authRequest_outcomes [where c = fake_Client, OF ne
        fake_authorize_request [where answers = "[Inr ?found, Inr (body_response 200 ''<html>'')]"
          and f = ?none]
        fake_Do_first refl,
        THEN conjunct2, THEN conjunct2, THEN conjunct2, THEN conjunct2,
        THEN conjunct1, rule_format,
        OF fake_token_step [where f = ?none and tresp = "body_response 200 ''<html>''"],
        THEN conjunct2, THEN conjunct2, THEN conjunct1, rule_format,
        of "''<html>''" "''invalid character''"]
    by (simp add: alive_def [symmetric] after1 after2 err body_response_def fake_env_def
        fake_Unmarshal_Tokens_def)
  have 5: "fst (authRequest (fake_env [Inr ?found, Inr (body_response 200 ''hour'')])
      fake_Client (cancelled_after 2) ''secret'' idle) =
      Inl (token_request_cancelled ''context canceled'')"
    using authRequest_outcomes [where c = fake_Client, OF ne
        fake_authorize_request [where answers = "[Inr ?found, Inr (body_response 200 ''hour'')]"
          and f = ?late]
        fake_Do_first refl,
        THEN conjunct2, THEN conjunct2, THEN conjunct2, THEN conjunct2,
        THEN conjunct1, rule_format,
        OF fake_token_step [where f = ?late and tresp = "body_response 200 ''hour''"]]
    by (simp add: cancelled_after_def [symmetric] after1 after2 err)
  from 1 2 3 4 5 show ?thesis by blast
qed

text \<open>
  C2 as stated fails on a run in which the authorization endpoint answers 500 and the
  context is found cancelled right after: the transport has returned the response, its
  status is not 302, and the exchange fails with \<open>request cancelled\<close>, not with
  \<open>error: check npsso\<close>.
\<close>

theorem authRequest_cancelled_counterexample:
  "Do (fake_env [Inr (body_response 500 ''oops'')]) (httpClient fake_Client) (sent idle)
     (add_cookie ''secret''
        \<lparr>Method = MethodGet, URL = authURL (fake_env [Inr (body_response 500 ''oops'')]),
         Header = [], Body = ''''\<rparr>) = Inr (body_response 500 ''oops'') \<and>
   StatusCode (body_response 500 ''oops'') \<noteq> 302 \<and>
   fst (authRequest (fake_env [Inr (body_response 500 ''oops'')])
          fake_Client cancelled ''secret'' idle) = Inl (request_cancelled ''context canceled'') \<and>
   Inl (request_cancelled ''context canceled'') \<noteq> (Inl error_check_npsso :: error + Tokens)"
  by (simp add: exchange_defs fake_defs)

section \<open>Expiry instants of a token pair\<close>

text \<open>
  C3, as amended. A successful exchange that starts with \<open>n\<close> clock readings taken reads
  the clock twice, readings \<open>n\<close> and \<open>n + 1\<close>. Its Token Pair carries the lifetimes the
  decoder returned for the token response. For a lifetime of at most 9223372036 seconds
  in absolute value, the number of nanoseconds fits \<open>int64\<close>: then the access-expiry
  instant is the first reading plus \<open>expires_in\<close> seconds, and the refresh-expiry instant is
  the second reading plus \<open>refresh_token_expires_in\<close> seconds. (Beyond that bound the
  product with \<open>time.Second\<close> wraps around, see the counterexample.)
\<close>

theorem token_pair_expiry_instants:
  assumes "authRequest env c ctx npsso w = (Inr t, w')"
  shows "(\<exists>body tr. Unmarshal_Tokens env body = Inr tr \<and>
            AccessExpires t = AccessExpires tr \<and> RefreshExpires t = RefreshExpires tr) \<and>
         (- 9223372036 \<le> sint (AccessExpires t) \<and> sint (AccessExpires t) \<le> 9223372036 \<longrightarrow>
            AccessExpiresTime t =
              Now env (clock_reads w) + 1000000000 * sint (AccessExpires t)) \<and>
         (- 9223372036 \<le> sint (RefreshExpires t) \<and> sint (RefreshExpires t) \<le> 9223372036 \<longrightarrow>
            RefreshExpiresTime t =
              Now env (Suc (clock_reads w)) + 1000000000 * sint (RefreshExpires t))"
proof -
  from authRequest_Inr_clock [OF assms] obtain body tr where
    d: "Unmarshal_Tokens env body = Inr tr" and t: "t = set_expiration_times env w tr"
    by blast
  have "AccessExpires t = AccessExpires tr" "RefreshExpires t = RefreshExpires tr"
    by (simp_all add: t set_expiration_times_def)
  moreover have "AccessExpiresTime t = Now env (clock_reads w) + sint (time_Second * AccessExpires t)"
    by (simp add: t set_expiration_times_def time_Add_def)
  moreover have "RefreshExpiresTime t =
      Now env (Suc (clock_reads w)) + sint (time_Second * RefreshExpires t)"
    by (simp add: t set_expiration_times_def time_Add_def)
  ultimately show ?thesis
    using d by (auto simp: sint_Second_mult)
qed

lemma fake_exchange:
  "authRequest (fake_env [Inr (found_response ''cb?code=v3abc''), Inr (body_response 200 body)])
     fake_Client alive ''secret'' idle =
   (case fake_Unmarshal_Tokens body of
      Inl e \<Rightarrow>
        (Inl (error_parsing_token_response e),
         snd (token_call
                (fake_env [Inr (found_response ''cb?code=v3abc''), Inr (body_response 200 body)])
                fake_Client alive ''v3abc''
                (snd (authorize_call
                        (fake_env
                           [Inr (found_response ''cb?code=v3abc''), Inr (body_response 200 body)])
                        fake_Client alive ''secret'' idle))))
    | Inr tr \<Rightarrow>
        (Inr (tr\<lparr>AccessExpiresTime :=
                  1700000000000000000 + sint (1000000000 * AccessExpires tr),
                RefreshExpiresTime :=
                  1700000000000000001 + sint (1000000000 * RefreshExpires tr)\<rparr>),
         snd (token_call
                (fake_env [Inr (found_response ''cb?code=v3abc''), Inr (body_response 200 body)])
                fake_Client alive ''v3abc''
                (snd (authorize_call
                        (fake_env
                           [Inr (found_response ''cb?code=v3abc''), Inr (body_response 200 body)])
                        fake_Client alive ''secret'' idle)))
           \<lparr>clock_reads := 2\<rparr>))"
  by (simp add: exchange_defs fake_env_def scripted_def found_response_def body_response_def
      fake_url_Parse_def fake_Client_def alive_def idle_def split: sum.splits)

theorem token_pair_expiry_instants_witness:
  "fst (authRequest
          (fake_env [Inr (found_response ''cb?code=v3abc''), Inr (body_response 200 ''hour'')])
          fake_Client alive ''secret'' idle) =
     Inr ((fake_tokens 3600 5184000)
            \<lparr>AccessExpiresTime := 1700000000000000000 + 1000000000 * 3600,
             RefreshExpiresTime := 1700000000000000001 + 1000000000 * 5184000\<rparr>)"
proof -
  let ?env = "fake_env [Inr (found_response ''cb?code=v3abc''), Inr (body_response 200 ''hour'')]"
  obtain t w' where run: "authRequest ?env fake_Client alive ''secret'' idle = (Inr t, w')"
    and fields: "AccessToken t = ''A''" "RefreshToken t = ''B''"
      "AccessExpires t = 3600" "RefreshExpires t = 5184000"
    by (simp add: fake_exchange fake_Unmarshal_Tokens_def fake_tokens_def)
  have "AccessExpiresTime t = Now ?env (clock_reads idle) + 1000000000 * sint (AccessExpires t)"
    and "RefreshExpiresTime t =
      Now ?env (Suc (clock_reads idle)) + 1000000000 * sint (RefreshExpires t)"
    using token_pair_expiry_instants [OF run] by (simp_all add: fields)
  then have "AccessExpiresTime t = 1700000000000000000 + 1000000000 * 3600"
    and "RefreshExpiresTime t = 1700000000000000001 + 1000000000 * 5184000"
    by (simp_all add: fields fake_env_def idle_def)
  with fields have "t = (fake_tokens 3600 5184000)
            \<lparr>AccessExpiresTime := 1700000000000000000 + 1000000000 * 3600,
             RefreshExpiresTime := 1700000000000000001 + 1000000000 * 5184000\<rparr>"
    by (simp add: fake_tokens_def)
  with run show ?thesis by simp
qed

text \<open>
  C3 as stated fails for \<open>expires_in = 9223372037\<close>: the product with \<open>time.Second\<close>
  wraps around to \<open>- 9223372036709551616\<close> nanoseconds, and the access-expiry instant
  lies before the exchange instead of 9223372037 seconds after it.
\<close>

theorem token_pair_expiry_overflow_counterexample:
  "fst (authRequest
          (fake_env [Inr (found_response ''cb?code=v3abc''), Inr (body_response 200 ''huge'')])
          fake_Client alive ''secret'' idle) =
     Inr ((fake_tokens 9223372037 5184000)
            \<lparr>AccessExpiresTime := 1700000000000000000 - 9223372036709551616,
             RefreshExpiresTime := 1700000000000000001 + 1000000000 * 5184000\<rparr>) \<and>
   (1700000000000000000 - 9223372036709551616 :: int) \<noteq>
     1700000000000000000 + 1000000000 * 9223372037"
  by (simp add: fake_exchange fake_Unmarshal_Tokens_def fake_tokens_def)

section \<open>Access expiry against the exchange time\<close>

text \<open>
  C8, as amended. For every Token Pair of a successful exchange whose \<open>expires_in\<close> lies
  between 0 and 9223372036 seconds, the access-expiry instant is not before the clock
  reading it was computed from, the first reading after the token response was decoded.
  (A negative lifetime, or one whose nanoseconds do not fit \<open>int64\<close>, is not rejected and
  gives an earlier instant, see the counterexample.)
\<close>

theorem access_expiry_not_before_exchange:
  assumes "authRequest env c ctx npsso w = (Inr t, w')"
    and "0 \<le> sint (AccessExpires t)"
    and "sint (AccessExpires t) \<le> 9223372036"
  shows "Now env (clock_reads w) \<le> AccessExpiresTime t"
proof -
  from authRequest_Inr_clock [OF assms(1)] obtain body tr where
    t: "t = set_expiration_times env w tr"
    by blast
  have "AccessExpiresTime t = Now env (clock_reads w) + sint (time_Second * AccessExpires t)"
    by (simp add: t set_expiration_times_def time_Add_def)
  also have "sint (time_Second * AccessExpires t) = 1000000000 * sint (AccessExpires t)"
    using assms(2,3) by (intro sint_Second_mult) simp_all
  finally show ?thesis
    using assms(2) by simp
qed

theorem access_expiry_not_before_exchange_witness:
  "\<exists>t w'.
     authRequest
       (fake_env [Inr (found_response ''cb?code=v3abc''), Inr (body_response 200 ''hour'')])
       fake_Client alive ''secret'' idle = (Inr t, w') \<and>
     AccessExpires t = 3600 \<and>
     (1700000000000000000 :: int) \<le> AccessExpiresTime t"
proof -
  let ?env = "fake_env [Inr (found_response ''cb?code=v3abc''), Inr (body_response 200 ''hour'')]"
  obtain t w' where run: "authRequest ?env fake_Client alive ''secret'' idle = (Inr t, w')"
    and life: "AccessExpires t = 3600"
    by (simp add: fake_exchange fake_Unmarshal_Tokens_def fake_tokens_def)
  have "Now ?env (clock_reads idle) \<le> AccessExpiresTime t"
    using access_expiry_not_before_exchange [OF run] by (simp add: life)
  then have "(1700000000000000000 :: int) \<le> AccessExpiresTime t"
    by (simp add: fake_env_def idle_def)
  with run life show ?thesis by blast
qed

text \<open>
  C8 as stated fails for \<open>expires_in = - 1\<close>: the access-expiry instant is one second
  before the clock reading of the exchange.
\<close>

theorem access_expiry_negative_lifetime_counterexample:
  "fst (authRequest
          (fake_env [Inr (found_response ''cb?code=v3abc''), Inr (body_response 200 ''negative'')])
          fake_Client alive ''secret'' idle) =
     Inr ((fake_tokens (- 1) 5184000)
            \<lparr>AccessExpiresTime := 1700000000000000000 - 1000000000,
             RefreshExpiresTime := 1700000000000000001 + 1000000000 * 5184000\<rparr>) \<and>
   Now (fake_env [Inr (found_response ''cb?code=v3abc''), Inr (body_response 200 ''negative'')])
     (clock_reads idle) = 1700000000000000000 \<and>
   (1700000000000000000 - 1000000000 :: int) < 1700000000000000000"
proof (intro conjI)
  show "fst (authRequest
          (fake_env [Inr (found_response ''cb?code=v3abc''), Inr (body_response 200 ''negative'')])
          fake_Client alive ''secret'' idle) =
     Inr ((fake_tokens (- 1) 5184000)
            \<lparr>AccessExpiresTime := 1700000000000000000 - 1000000000,
             RefreshExpiresTime := 1700000000000000001 + 1000000000 * 5184000\<rparr>)"
    by (simp add: fake_exchange fake_Unmarshal_Tokens_def fake_tokens_def)
qed (simp_all add: fake_env_def idle_def)

section \<open>Lazy refresh\<close>

lemma token_response_world:
  assumes "token_response env tokenResp w = (r, w1)"
  shows "sent w1 = sent w"
  using assms by (auto simp: token_response_def split: if_splits sum.splits)

lemma authRequest_world:
  assumes "authRequest env c ctx npsso w = (r, w1)"
  shows "sent w1 = sent w \<or>
         (\<exists>a. sent w1 = sent w @ [a] \<and> Method a = MethodGet \<and> URL a = authURL env) \<or>
         (\<exists>a p. sent w1 = sent w @ [a, p] \<and> Method a = MethodGet \<and> URL a = authURL env \<and>
                Method p = MethodPost \<and> URL p = tokenURL)"
proof (cases "npsso = ''''")
  case True
  with assms show ?thesis by (simp add: authRequest_def)
next
  case False
  obtain ra wa where a: "authorize_call env c ctx npsso w = (ra, wa)"
    by (cases "authorize_call env c ctx npsso w")
  note wa = authorize_call_world [OF a]
  show ?thesis
  proof (cases ra)
    case (Inl e)
    with assms False a have "w1 = wa" by (simp add: authRequest_def)
    with wa show ?thesis by auto
  next
    case (Inr resp)
    with authorize_call_Inr_world a obtain req where
      req: "sent wa = sent w @ [req]" "Method req = MethodGet" "URL req = authURL env"
      by blast
    show ?thesis
    proof (cases "\<exists>q. StatusCode resp = 302 \<and> url_Parse env (Location resp) = Inr q \<and>
        HasPrefix (Values_Get q ''code'') ''v3''")
      case False
      with assms \<open>npsso \<noteq> ''''\<close> a Inr have "w1 = wa"
        by (auto simp: authRequest_def split: if_splits sum.splits)
      with req show ?thesis by auto
    next
      case True
      then obtain q where q: "StatusCode resp = 302" "url_Parse env (Location resp) = Inr q"
        "HasPrefix (Values_Get q ''code'') ''v3''"
        by blast
      obtain rt wt where t: "token_call env c ctx (Values_Get q ''code'') wa = (rt, wt)"
        by (cases "token_call env c ctx (Values_Get q ''code'') wa")
      note wt = token_call_world [OF t]
      have "sent w1 = sent wt"
        using assms \<open>npsso \<noteq> ''''\<close> a Inr q t
        by (auto simp: authRequest_def token_response_world split: sum.splits)
      with wt req show ?thesis by auto
    qed
  qed
qed

lemma authRequest_Inr_world:
  assumes "authRequest env c ctx npsso w = (Inr t, w1)"
  shows "clock_reads w1 = Suc (Suc (clock_reads w)) \<and>
         (\<exists>a p. sent w1 = sent w @ [a, p] \<and> Method a = MethodGet \<and> URL a = authURL env \<and>
                Method p = MethodPost \<and> URL p = tokenURL)"
proof -
  from authRequest_Inr [OF assms] obtain resp wa q tokenResp wt where
    a: "authorize_call env c ctx npsso w = (Inr resp, wa)" and
    b: "token_call env c ctx (Values_Get q ''code'') wa = (Inr tokenResp, wt)" and
    w1: "w1 = wt\<lparr>clock_reads := Suc (Suc (clock_reads wt))\<rparr>"
    by blast
  from b have "\<exists>req. sent wt = sent wa @ [req] \<and> Method req = MethodPost \<and> URL req = tokenURL"
    by (auto simp: token_call_def NewRequestWithContext_def send_def token_headers_def
        Header_Set_def
        split: sum.splits option.splits context_Context.splits)
  with authorize_call_Inr_world [OF a] token_call_world [OF b] w1 show ?thesis
    by auto
qed

lemma dispatch_world:
  assumes "dispatch env c tokens ctx url w = (r, c', w')"
  shows "c' = c \<and> clock_reads w' = clock_reads w \<and>
         ((\<exists>e. r = Inl (error_creating_request e) \<and> sent w' = sent w) \<or>
          (\<exists>req. sent w' = sent w @ [req] \<and> Method req = MethodGet \<and> URL req = url \<and>
             (''Authorization'', ''Bearer '' @ AccessToken tokens) \<in> set (Header req)))"
  using assms
  by (auto simp: dispatch_def NewRequestWithContext_def send_def resource_headers_def
        Header_Set_def Let_def
      split: sum.splits option.splits context_Context.splits if_splits)

text \<open>
  C1. Take a protected call on a session that holds a Token Pair with a non-empty access
  token, in a world \<open>w\<close>. The call reads the clock once.
  \<^item> If the access-expiry instant is strictly before that reading, \<open>authRequest\<close> runs once,
    with the session's stored credential. If it fails with \<open>err\<close>, the call fails with
    \<open>error refreshing tokens: err\<close>, the session is as before, and the world is the one the
    exchange left: besides the requests of that one exchange (none, the authorization GET,
    or the authorization GET and the token POST) nothing was sent, so no GET to the
    resource. If it succeeds with \<open>newTokens\<close>, the session holds \<open>newTokens\<close> afterwards,
    and the requests sent are the authorization GET, the token POST and then, unless the
    request for the resource could not be created, one GET to the resource URL that
    carries \<open>Bearer\<close> with the new access token.
  \<^item> If the access-expiry instant is not before the reading, the session is unchanged, no
    further clock reading is taken (an exchange takes two), and the only request sent, if
    any, is the GET to the resource URL with the held access token: no exchange runs.
\<close>

theorem request_refreshes_expired_tokens:
  assumes "Tokens c = Some tokens" and "AccessToken tokens \<noteq> ''''"
  shows
    "(time_Before (AccessExpiresTime tokens) (Now env (clock_reads w)) \<longrightarrow>
        (\<forall>err w1. authRequest env (Client c) ctx (NPSSO c) (tick w) = (Inl err, w1) \<longrightarrow>
           request env c ctx url w = (Inl (error_refreshing_tokens err), c, w1) \<and>
           (sent w1 = sent w \<or>
            (\<exists>a. sent w1 = sent w @ [a] \<and> URL a = authURL env) \<or>
            (\<exists>a p. sent w1 = sent w @ [a, p] \<and> URL a = authURL env \<and> URL p = tokenURL))) \<and>
        (\<forall>newTokens w1.
           authRequest env (Client c) ctx (NPSSO c) (tick w) = (Inr newTokens, w1) \<longrightarrow>
           (\<exists>r w2 a p.
              request env c ctx url w = (r, c\<lparr>Tokens := Some newTokens\<rparr>, w2) \<and>
              sent w1 = sent w @ [a, p] \<and> URL a = authURL env \<and> URL p = tokenURL \<and>
              ((\<exists>e. r = Inl (error_creating_request e) \<and> sent w2 = sent w1) \<or>
               (\<exists>req. sent w2 = sent w @ [a, p, req] \<and> Method req = MethodGet \<and>
                  URL req = url \<and>
                  (''Authorization'', ''Bearer '' @ AccessToken newTokens)
                    \<in> set (Header req)))))) \<and>
     (\<not> time_Before (AccessExpiresTime tokens) (Now env (clock_reads w)) \<longrightarrow>
        (\<exists>r w2.
           request env c ctx url w = (r, c, w2) \<and>
           clock_reads w2 = Suc (clock_reads w) \<and>
           ((\<exists>e. r = Inl (error_creating_request e) \<and> sent w2 = sent w) \<or>
            (\<exists>req. sent w2 = sent w @ [req] \<and> Method req = MethodGet \<and> URL req = url \<and>
               (''Authorization'', ''Bearer '' @ AccessToken tokens) \<in> set (Header req)))))"
proof (intro conjI impI allI)
  fix err w1
  assume "time_Before (AccessExpiresTime tokens) (Now env (clock_reads w))"
    and "authRequest env (Client c) ctx (NPSSO c) (tick w) = (Inl err, w1)"
  with assms show "request env c ctx url w = (Inl (error_refreshing_tokens err), c, w1)"
    by (simp add: request_def)
next
  fix err w1
  assume "authRequest env (Client c) ctx (NPSSO c) (tick w) = (Inl err, w1)"
  from authRequest_world [OF this]
  show "sent w1 = sent w \<or>
            (\<exists>a. sent w1 = sent w @ [a] \<and> URL a = authURL env) \<or>
            (\<exists>a p. sent w1 = sent w @ [a, p] \<and> URL a = authURL env \<and> URL p = tokenURL)"
    by (auto simp: tick_def)
next
  fix newTokens w1
  assume expired: "time_Before (AccessExpiresTime tokens) (Now env (clock_reads w))"
    and run: "authRequest env (Client c) ctx (NPSSO c) (tick w) = (Inr newTokens, w1)"
  obtain r c' w2 where
    d: "dispatch env (c\<lparr>Tokens := Some newTokens\<rparr>) newTokens ctx url w1 = (r, c', w2)"
    by (cases "dispatch env (c\<lparr>Tokens := Some newTokens\<rparr>) newTokens ctx url w1")
  from dispatch_world [OF d] have c': "c' = c\<lparr>Tokens := Some newTokens\<rparr>"
    and w2: "(\<exists>e. r = Inl (error_creating_request e) \<and> sent w2 = sent w1) \<or>
          (\<exists>req. sent w2 = sent w1 @ [req] \<and> Method req = MethodGet \<and> URL req = url \<and>
             (''Authorization'', ''Bearer '' @ AccessToken newTokens) \<in> set (Header req))"
    by simp_all
  from authRequest_Inr_world [OF run] obtain a p where
    ap: "sent w1 = sent w @ [a, p]" "URL a = authURL env" "URL p = tokenURL"
    by (auto simp: tick_def)
  have "request env c ctx url w = (r, c\<lparr>Tokens := Some newTokens\<rparr>, w2)"
    using assms expired run d c' by (simp add: request_def)
  with ap w2
  show "\<exists>r w2 a p.
              request env c ctx url w = (r, c\<lparr>Tokens := Some newTokens\<rparr>, w2) \<and>
              sent w1 = sent w @ [a, p] \<and> URL a = authURL env \<and> URL p = tokenURL \<and>
              ((\<exists>e. r = Inl (error_creating_request e) \<and> sent w2 = sent w1) \<or>
               (\<exists>req. sent w2 = sent w @ [a, p, req] \<and> Method req = MethodGet \<and>
                  URL req = url \<and>
                  (''Authorization'', ''Bearer '' @ AccessToken newTokens)
                    \<in> set (Header req)))"
    by auto
next
  assume fresh: "\<not> time_Before (AccessExpiresTime tokens) (Now env (clock_reads w))"
  obtain r c' w2 where d: "dispatch env c tokens ctx url (tick w) = (r, c', w2)"
    by (cases "dispatch env c tokens ctx url (tick w)")
  have "request env c ctx url w = (r, c', w2)"
    using assms fresh d by (simp add: request_def)
  with dispatch_world [OF d]
  show "\<exists>r w2.
           request env c ctx url w = (r, c, w2) \<and>
           clock_reads w2 = Suc (clock_reads w) \<and>
           ((\<exists>e. r = Inl (error_creating_request e) \<and> sent w2 = sent w) \<or>
            (\<exists>req. sent w2 = sent w @ [req] \<and> Method req = MethodGet \<and> URL req = url \<and>
               (''Authorization'', ''Bearer '' @ AccessToken tokens) \<in> set (Header req)))"
    by (auto simp: tick_def)
qed

lemma fake_session_fields:
  "Tokens (fake_session expiry) = Some ((fake_tokens 3600 5184000)\<lparr>AccessExpiresTime := expiry\<rparr>)"
  "AccessToken ((fake_tokens 3600 5184000)\<lparr>AccessExpiresTime := expiry\<rparr>) \<noteq> ''''"
  "AccessExpiresTime ((fake_tokens 3600 5184000)\<lparr>AccessExpiresTime := expiry\<rparr>) = expiry"
  "Client (fake_session expiry) = fake_Client"
  "NPSSO (fake_session expiry) = ''secret''"
  by (simp_all add: fake_session_def fake_tokens_def)

lemma fake_refresh_fails:
  "\<exists>w1. authRequest (fake_env [Inr (body_response 500 ''oops'')]) fake_Client alive ''secret''
          (tick idle) = (Inl error_check_npsso, w1)"
  by (simp add: exchange_defs fake_defs tick_def)

lemma fake_refresh_succeeds:
  "\<exists>newTokens w1.
     authRequest (fake_env (Inr (found_response ''cb?code=v3abc'') #
                            Inr (body_response 200 ''hour'') # rest))
       fake_Client alive ''secret'' (tick idle) = (Inr newTokens, w1) \<and>
     AccessExpiresTime newTokens = 1700003600000000001"
  by (simp add: exchange_defs fake_defs tick_def)

theorem request_refreshes_expired_tokens_witness:
  "fst (request (fake_env [Inr (body_response 500 ''oops'')]) (fake_session 5) alive ''u'' idle) =
     Inl (error_refreshing_tokens error_check_npsso) \<and>
   fst (snd (request (fake_env [Inr (body_response 500 ''oops'')]) (fake_session 5) alive ''u''
     idle)) = fake_session 5 \<and>
   (\<exists>newTokens.
      fst (snd (request
        (fake_env [Inr (found_response ''cb?code=v3abc''), Inr (body_response 200 ''hour''),
                   Inr (body_response 200 ''{}'')])
        (fake_session 5) alive ''u'' idle)) = (fake_session 5)\<lparr>Tokens := Some newTokens\<rparr> \<and>
      AccessExpiresTime newTokens = 1700003600000000001) \<and>
   fst (snd (request (fake_env [Inr (body_response 200 ''{}'')])
     (fake_session 1800000000000000000) alive ''u'' idle)) = fake_session 1800000000000000000 \<and>
   length (sent (snd (snd (request (fake_env [Inr (body_response 200 ''{}'')])
     (fake_session 1800000000000000000) alive ''u'' idle)))) = 1"
proof -
  let ?fail = "fake_env [Inr (body_response 500 ''oops'')]"
  let ?ok = "fake_env [Inr (found_response ''cb?code=v3abc''), Inr (body_response 200 ''hour''),
                   Inr (body_response 200 ''{}'')]"
  let ?plain = "fake_env [Inr (body_response 200 ''{}'')]"
  have expired: "time_Before 5 (Now (fake_env answers) (clock_reads idle))" for answers
    by (simp add: time_Before_def fake_env_def idle_def)
  have fresh: "\<not> time_Before 1800000000000000000 (Now ?plain (clock_reads idle))"
    by (simp add: time_Before_def fake_env_def idle_def)
  obtain w1 where "authRequest ?fail fake_Client alive ''secret'' (tick idle) =
      (Inl error_check_npsso, w1)"
    using fake_refresh_fails by blast
  with request_refreshes_expired_tokens
    [OF fake_session_fields(1,2), of 5 ?fail idle alive "''u''"] expired
  have "request ?fail (fake_session 5) alive ''u'' idle =
      (Inl (error_refreshing_tokens error_check_npsso), fake_session 5, w1)"
    by (simp add: fake_session_fields)
  then have 1: "fst (request ?fail (fake_session 5) alive ''u'' idle) =
      Inl (error_refreshing_tokens error_check_npsso)"
    and 2: "fst (snd (request ?fail (fake_session 5) alive ''u'' idle)) = fake_session 5"
    by simp_all
  obtain newTokens w1 where
    "authRequest ?ok fake_Client alive ''secret'' (tick idle) = (Inr newTokens, w1)"
    and new: "AccessExpiresTime newTokens = 1700003600000000001"
    using fake_refresh_succeeds by blast
  with request_refreshes_expired_tokens
    [OF fake_session_fields(1,2), of 5 ?ok idle alive "''u''"] expired
  obtain r w2 where "request ?ok (fake_session 5) alive ''u'' idle =
      (r, (fake_session 5)\<lparr>Tokens := Some newTokens\<rparr>, w2)"
    by (auto simp: fake_session_fields)
  with new have 3: "\<exists>newTokens.
      fst (snd (request ?ok (fake_session 5) alive ''u'' idle)) =
        (fake_session 5)\<lparr>Tokens := Some newTokens\<rparr> \<and>
      AccessExpiresTime newTokens = 1700003600000000001"
    by auto
  from request_refreshes_expired_tokens
    [OF fake_session_fields(1,2), of 1800000000000000000 ?plain idle alive "''u''"] fresh
  obtain r w2 where run: "request ?plain (fake_session 1800000000000000000) alive ''u'' idle =
      (r, fake_session 1800000000000000000, w2)"
    and sent: "(\<exists>e. r = Inl (error_creating_request e) \<and> sent w2 = sent idle) \<or>
      (\<exists>req. sent w2 = sent idle @ [req])"
    by (auto simp: fake_session_fields)
  have "fst (request ?plain (fake_session 1800000000000000000) alive ''u'' idle) = Inr ''{}''"
    by (simp add: request_def dispatch_def resource_headers_def status_switch_def tick_def
        exchange_defs fake_defs)
  with run sent have "length (sent w2) = 1"
    by (auto simp: idle_def)
  with run have 4: "fst (snd (request ?plain (fake_session 1800000000000000000) alive ''u''
      idle)) = fake_session 1800000000000000000"
    and 5: "length (sent (snd (snd (request ?plain (fake_session 1800000000000000000) alive ''u''
      idle)))) = 1"
    by simp_all
  from 1 2 3 4 5 show ?thesis by blast
qed

section \<open>Status handling of a protected call\<close>

lemma dispatch_status:
  assumes "NewRequestWithContext env ctx MethodGet url '''' = Inr req0"
    and "Do env (httpClient (Client c)) (sent w) (resource_headers (Client c) tokens req0) =
      Inr resp"
    and "ReadAll resp = Inr body"
  shows "fst (dispatch env c tokens ctx url w) = status_switch url (StatusCode resp) body"
  using assms by (simp add: dispatch_def)

lemma request_dispatches:
  assumes "Tokens c = Some tokens" and "AccessToken tokens \<noteq> ''''"
    and "(\<not> time_Before (AccessExpiresTime tokens) (Now env (clock_reads w)) \<and>
          current = tokens \<and> w1 = tick w) \<or>
         (time_Before (AccessExpiresTime tokens) (Now env (clock_reads w)) \<and>
          authRequest env (Client c) ctx (NPSSO c) (tick w) = (Inr current, w1))"
  shows "fst (request env c ctx url w) =
         fst (dispatch env (c\<lparr>Tokens := Some current\<rparr>) current ctx url w1)"
proof -
  have same: "c\<lparr>Tokens := Some tokens\<rparr> = c"
    using assms(1) by (cases c) simp
  from assms(3) show ?thesis
  proof
    assume "\<not> time_Before (AccessExpiresTime tokens) (Now env (clock_reads w)) \<and>
          current = tokens \<and> w1 = tick w"
    then have fresh: "\<not> time_Before (AccessExpiresTime tokens) (Now env (clock_reads w))"
      and cur: "current = tokens" "w1 = tick w"
      by simp_all
    have "request env c ctx url w = dispatch env c tokens ctx url (tick w)"
      using assms(1,2) fresh by (simp add: request_def)
    also have "\<dots> = dispatch env (c\<lparr>Tokens := Some tokens\<rparr>) tokens ctx url (tick w)"
      by (simp only: same)
    finally show ?thesis by (simp only: cur)
  next
    assume "time_Before (AccessExpiresTime tokens) (Now env (clock_reads w)) \<and>
          authRequest env (Client c) ctx (NPSSO c) (tick w) = (Inr current, w1)"
    with assms(1,2) show ?thesis by (simp add: request_def)
  qed
qed

text \<open>
  C4. Take a protected call that gets as far as a response: the session holds a non-empty
  access token, its tokens are fresh or were refreshed with success (\<open>current\<close> are the
  tokens, \<open>w1\<close> the world, with which the GET is made), the request could be created, the
  transport returned the response \<open>resp\<close> and its body \<open>body\<close> was read. Then status 200,
  401 and 403 return \<open>body\<close>; 404 fails with \<open>resource not found\<close> for the URL; 429 fails
  with \<open>rate limit exceeded\<close>; every other status fails with \<open>unexpected status code\<close>
  carrying the status and \<open>body\<close>.
\<close>

theorem request_status_handling:
  assumes "Tokens c = Some tokens" and "AccessToken tokens \<noteq> ''''"
    and "(\<not> time_Before (AccessExpiresTime tokens) (Now env (clock_reads w)) \<and>
          current = tokens \<and> w1 = tick w) \<or>
         (time_Before (AccessExpiresTime tokens) (Now env (clock_reads w)) \<and>
          authRequest env (Client c) ctx (NPSSO c) (tick w) = (Inr current, w1))"
    and "NewRequestWithContext env ctx MethodGet url '''' = Inr req0"
    and "Do env (httpClient (Client c)) (sent w1) (resource_headers (Client c) current req0) =
      Inr resp"
    and "ReadAll resp = Inr body"
  shows
    "(StatusCode resp = 200 \<longrightarrow> fst (request env c ctx url w) = Inr body) \<and>
     (StatusCode resp = 401 \<longrightarrow> fst (request env c ctx url w) = Inr body) \<and>
     (StatusCode resp = 403 \<longrightarrow> fst (request env c ctx url w) = Inr body) \<and>
     (StatusCode resp = 404 \<longrightarrow> fst (request env c ctx url w) = Inl (resource_not_found url)) \<and>
     (StatusCode resp = 429 \<longrightarrow> fst (request env c ctx url w) = Inl rate_limit_exceeded) \<and>
     (StatusCode resp \<notin> {200, 401, 403, 404, 429} \<longrightarrow>
        fst (request env c ctx url w) = Inl (unexpected_status_code (StatusCode resp) body))"
proof -
  have "fst (request env c ctx url w) =
      fst (dispatch env (c\<lparr>Tokens := Some current\<rparr>) current ctx url w1)"
    using assms(1-3) by (rule request_dispatches)
  also have "\<dots> = status_switch url (StatusCode resp) body"
    using assms(4-6) by (intro dispatch_status) simp_all
  finally show ?thesis
    by (simp add: status_switch_def)
qed

theorem request_status_handling_witness:
  "fst (request (fake_env [Inr (body_response 404 ''gone'')])
          (fake_session 1800000000000000000) alive ''u'' idle) = Inl (resource_not_found ''u'') \<and>
   fst (request (fake_env [Inr (body_response 403 ''denied'')])
          (fake_session 1800000000000000000) alive ''u'' idle) = Inr ''denied'' \<and>
   fst (request (fake_env [Inr (body_response 500 ''oops'')])
          (fake_session 1800000000000000000) alive ''u'' idle) =
     Inl (unexpected_status_code 500 ''oops'')"
proof -
  let ?c = "fake_session 1800000000000000000"
  let ?tokens = "(fake_tokens 3600 5184000)\<lparr>AccessExpiresTime := 1800000000000000000\<rparr>"
  let ?req0 = "\<lparr>Method = MethodGet, URL = ''u'', Header = [], Body = ''''\<rparr>"
  have fresh: "(\<not> time_Before (AccessExpiresTime ?tokens)
                   (Now (fake_env [Inr resp]) (clock_reads idle)) \<and>
                ?tokens = ?tokens \<and> tick idle = tick idle) \<or>
               (time_Before (AccessExpiresTime ?tokens)
                   (Now (fake_env [Inr resp]) (clock_reads idle)) \<and>
                authRequest (fake_env [Inr resp]) (Client ?c) alive (NPSSO ?c) (tick idle) =
                  (Inr ?tokens, tick idle))" for resp
    by (simp add: time_Before_def fake_env_def idle_def fake_tokens_def)
  have new: "NewRequestWithContext (fake_env [Inr resp]) alive MethodGet ''u'' '''' = Inr ?req0"
    for resp
    by (simp add: NewRequestWithContext_def fake_defs)
  have do: "Do (fake_env [Inr resp]) (httpClient (Client ?c)) (sent (tick idle))
      (resource_headers (Client ?c) ?tokens ?req0) = Inr resp" for resp
    by (simp add: fake_env_def scripted_def tick_def idle_def)
  have body: "ReadAll (body_response status b) = Inr b" for status b
    by (simp add: body_response_def)
  note inst = request_status_handling [OF fake_session_fields(1,2) fresh new do body]
  have "fst (request (fake_env [Inr (body_response 404 ''gone'')]) ?c alive ''u'' idle) =
      Inl (resource_not_found ''u'')"
    using inst [of 404 "''gone''"] by (simp add: body_response_def)
  moreover have "fst (request (fake_env [Inr (body_response 403 ''denied'')]) ?c alive ''u''
      idle) = Inr ''denied''"
    using inst [of 403 "''denied''"] by (simp add: body_response_def)
  moreover have "fst (request (fake_env [Inr (body_response 500 ''oops'')]) ?c alive ''u''
      idle) = Inl (unexpected_status_code 500 ''oops'')"
    using inst [of 500 "''oops''"] by (simp add: body_response_def)
  ultimately show ?thesis by blast
qed

section \<open>Decoding of a returned body\<close>

text \<open>
  C5. When \<open>request\<close> returns a body to \<open>requestAndUnmarshal\<close>, the body is first decoded
  as a \<open>RequestError\<close>. If that fails, the call fails with \<open>error unmarshaling response\<close>.
  If the envelope's \<open>code\<close> is not zero, the call fails with \<open>request error\<close> carrying the
  envelope's message, whatever the decoder of the caller's value would do. If the \<open>code\<close>
  is zero, the body is decoded into the caller's value: its failure is again
  \<open>error unmarshaling response\<close>, its success is the result.
\<close>

theorem requestAndUnmarshal_decoding:
  assumes "request env c ctx url w = (Inr body, c1, w1)"
  shows
    "(\<forall>e. Unmarshal_RequestError env body = Inl e \<longrightarrow>
        requestAndUnmarshal env c ctx url unmarshal_v w =
          (Inl (error_unmarshaling_response e body), c1, w1)) \<and>
     (\<forall>requestError. Unmarshal_RequestError env body = Inr requestError \<and>
          Code (Error requestError) \<noteq> 0 \<longrightarrow>
        requestAndUnmarshal env c ctx url unmarshal_v w =
          (Inl (request_error (Message (Error requestError))), c1, w1)) \<and>
     (\<forall>requestError e. Unmarshal_RequestError env body = Inr requestError \<and>
          Code (Error requestError) = 0 \<and> unmarshal_v body = Inl e \<longrightarrow>
        requestAndUnmarshal env c ctx url unmarshal_v w =
          (Inl (error_unmarshaling_response e body), c1, w1)) \<and>
     (\<forall>requestError v. Unmarshal_RequestError env body = Inr requestError \<and>
          Code (Error requestError) = 0 \<and> unmarshal_v body = Inr v \<longrightarrow>
        requestAndUnmarshal env c ctx url unmarshal_v w = (Inr v, c1, w1))"
  using assms by (simp add: requestAndUnmarshal_def decode_body_def)

lemma fake_request_body:
  assumes "status = 200 \<or> status = 401 \<or> status = 403"
  shows "\<exists>c1 w1. request (fake_env [Inr (body_response status body)])
           (fake_session 1800000000000000000) alive ''u'' idle = (Inr body, c1, w1)"
  using assms
  by (auto simp: request_def dispatch_def resource_headers_def status_switch_def tick_def
      exchange_defs fake_defs)

theorem requestAndUnmarshal_decoding_witness:
  "fst (requestAndUnmarshal (fake_env [Inr (body_response 401 ''denied'')])
          (fake_session 1800000000000000000) alive ''u'' fake_Unmarshal_v idle) =
     Inl (request_error ''Access denied'') \<and>
   fst (requestAndUnmarshal (fake_env [Inr (body_response 200 ''{'')])
          (fake_session 1800000000000000000) alive ''u'' fake_Unmarshal_v idle) =
     Inl (error_unmarshaling_response ''unexpected end of JSON input'' ''{'') \<and>
   fst (requestAndUnmarshal (fake_env [Inr (body_response 200 ''[]'')])
          (fake_session 1800000000000000000) alive ''u'' fake_Unmarshal_v idle) =
     Inl (error_unmarshaling_response ''cannot unmarshal array'' ''[]'') \<and>
   fst (requestAndUnmarshal (fake_env [Inr (body_response 200 ''{..}'')])
          (fake_session 1800000000000000000) alive ''u'' fake_Unmarshal_v idle) = Inr 4"
proof -
  let ?c = "fake_session 1800000000000000000"
  obtain c1 w1 where "request (fake_env [Inr (body_response 401 ''denied'')]) ?c alive ''u''
      idle = (Inr ''denied'', c1, w1)"
    using fake_request_body [of 401 "''denied''"] by auto
  from requestAndUnmarshal_decoding [OF this, of fake_Unmarshal_v]
  have 1: "fst (requestAndUnmarshal (fake_env [Inr (body_response 401 ''denied'')]) ?c alive
      ''u'' fake_Unmarshal_v idle) = Inl (request_error ''Access denied'')"
    by (simp add: fake_env_def fake_Unmarshal_RequestError_def fake_RequestError_def)
  obtain c1 w1 where "request (fake_env [Inr (body_response 200 ''{'')]) ?c alive ''u''
      idle = (Inr ''{'', c1, w1)"
    using fake_request_body [of 200 "''{''"] by auto
  from requestAndUnmarshal_decoding [OF this, of fake_Unmarshal_v]
  have 2: "fst (requestAndUnmarshal (fake_env [Inr (body_response 200 ''{'')]) ?c alive
      ''u'' fake_Unmarshal_v idle) =
      Inl (error_unmarshaling_response ''unexpected end of JSON input'' ''{'')"
    by (simp add: fake_env_def fake_Unmarshal_RequestError_def fake_RequestError_def)
  obtain c1 w1 where "request (fake_env [Inr (body_response 200 ''[]'')]) ?c alive ''u''
      idle = (Inr ''[]'', c1, w1)"
    using fake_request_body [of 200 "''[]''"] by auto
  from requestAndUnmarshal_decoding [OF this, of fake_Unmarshal_v]
  have 3: "fst (requestAndUnmarshal (fake_env [Inr (body_response 200 ''[]'')]) ?c alive
      ''u'' fake_Unmarshal_v idle) =
      Inl (error_unmarshaling_response ''cannot unmarshal array'' ''[]'')"
    by (simp add: fake_env_def fake_Unmarshal_RequestError_def fake_RequestError_def
        fake_Unmarshal_v_def)
  obtain c1 w1 where "request (fake_env [Inr (body_response 200 ''{..}'')]) ?c alive ''u''
      idle = (Inr ''{..}'', c1, w1)"
    using fake_request_body [of 200 "''{..}''"] by auto
  from requestAndUnmarshal_decoding [OF this, of fake_Unmarshal_v]
  have 4: "fst (requestAndUnmarshal (fake_env [Inr (body_response 200 ''{..}'')]) ?c alive
      ''u'' fake_Unmarshal_v idle) = Inr 4"
    by (simp add: fake_env_def fake_Unmarshal_RequestError_def fake_RequestError_def
        fake_Unmarshal_v_def)
  from 1 2 3 4 show ?thesis by blast
qed

section \<open>Sessions without an access token\<close>

text \<open>
  C9. A protected call on a session whose \<open>Tokens\<close> pointer is nil, or whose access token
  is the empty string, fails with \<open>invalid tokens: access token is required\<close> and leaves
  the session and the world as they were: the clock was not read for the expiry check, no
  exchange ran and nothing was sent. The access-expiry instant plays no part.
\<close>

theorem request_rejects_missing_access_token:
  assumes "Tokens c = None \<or> (\<exists>tokens. Tokens c = Some tokens \<and> AccessToken tokens = '''')"
  shows "request env c ctx url w = (Inl invalid_tokens, c, w)"
  using assms by (auto simp: request_def)

theorem request_rejects_missing_access_token_witness:
  "request (fake_env [Inr (body_response 200 ''{}'')])
     \<lparr>Client = fake_Client, Tokens = None, NPSSO = ''secret''\<rparr> alive ''u'' idle =
     (Inl invalid_tokens, \<lparr>Client = fake_Client, Tokens = None, NPSSO = ''secret''\<rparr>, idle) \<and>
   request (fake_env [Inr (found_response ''cb?code=v3abc''), Inr (body_response 200 ''hour'')])
     \<lparr>Client = fake_Client,
      Tokens = Some ((fake_tokens 3600 5184000)\<lparr>AccessToken := '''', AccessExpiresTime := 5\<rparr>),
      NPSSO = ''secret''\<rparr> alive ''u'' idle =
     (Inl invalid_tokens,
      \<lparr>Client = fake_Client,
       Tokens = Some ((fake_tokens 3600 5184000)\<lparr>AccessToken := '''', AccessExpiresTime := 5\<rparr>),
       NPSSO = ''secret''\<rparr>, idle) \<and>
   time_Before
     (AccessExpiresTime ((fake_tokens 3600 5184000)\<lparr>AccessToken := '''', AccessExpiresTime := 5\<rparr>))
     (Now (fake_env [Inr (found_response ''cb?code=v3abc''), Inr (body_response 200 ''hour'')])
        (clock_reads idle))"
proof (intro conjI)
  show "request (fake_env [Inr (body_response 200 ''{}'')])
     \<lparr>Client = fake_Client, Tokens = None, NPSSO = ''secret''\<rparr> alive ''u'' idle =
     (Inl invalid_tokens, \<lparr>Client = fake_Client, Tokens = None, NPSSO = ''secret''\<rparr>, idle)"
    by (rule request_rejects_missing_access_token) simp
  show "request (fake_env [Inr (found_response ''cb?code=v3abc''), Inr (body_response 200 ''hour'')])
     \<lparr>Client = fake_Client,
      Tokens = Some ((fake_tokens 3600 5184000)\<lparr>AccessToken := '''', AccessExpiresTime := 5\<rparr>),
      NPSSO = ''secret''\<rparr> alive ''u'' idle =
     (Inl invalid_tokens,
      \<lparr>Client = fake_Client,
       Tokens = Some ((fake_tokens 3600 5184000)\<lparr>AccessToken := '''', AccessExpiresTime := 5\<rparr>),
       NPSSO = ''secret''\<rparr>, idle)"
    by (rule request_rejects_missing_access_token) simp
  show "time_Before
     (AccessExpiresTime ((fake_tokens 3600 5184000)\<lparr>AccessToken := '''', AccessExpiresTime := 5\<rparr>))
     (Now (fake_env [Inr (found_response ''cb?code=v3abc''), Inr (body_response 200 ''hour'')])
        (clock_reads idle))"
    by (simp add: time_Before_def fake_env_def idle_def)
qed

section \<open>A failed exchange installs nothing\<close>

lemma authRequest_request_cancelled:
  assumes "npsso \<noteq> ''''"
    and "NewRequestWithContext env ctx MethodGet (authURL env) '''' = Inr req"
    and "Do env (httpClient c) (sent w) (add_cookie npsso req) = Inr resp"
    and "ctx_Err ctx (sent w @ [add_cookie npsso req]) = Some e"
  shows "authRequest env c ctx npsso w = (Inl (request_cancelled e), send (add_cookie npsso req) w)"
  using assms by (simp add: authRequest_def authorize_call_def send_def)

lemma authRequest_token_request_cancelled:
  assumes "npsso \<noteq> ''''"
    and "authorize_call env c ctx npsso w = (Inr resp, w1)"
    and "StatusCode resp = 302"
    and "url_Parse env (Location resp) = Inr q"
    and "HasPrefix (Values_Get q ''code'') ''v3''"
    and "NewRequestWithContext env ctx MethodPost tokenURL
           (Values_Encode env (tokenData (Values_Get q ''code''))) = Inr tokenReq"
    and "Do env (httpClient c) (sent w1) (token_headers tokenReq) = Inr tokenResp"
    and "ctx_Err ctx (sent w1 @ [token_headers tokenReq]) = Some e"
  shows "authRequest env c ctx npsso w =
         (Inl (token_request_cancelled e), send (token_headers tokenReq) w1)"
  using assms by (simp add: authRequest_def token_call_def send_def)

lemma request_session:
  assumes "request env s ctx url w = (r, s', w')"
  shows "s' = s \<or>
         (\<exists>newTokens w1.
            authRequest env (Client s) ctx (NPSSO s) (tick w) = (Inr newTokens, w1) \<and>
            s' = s\<lparr>Tokens := Some newTokens\<rparr>)"
proof (cases "\<exists>tokens. Tokens s = Some tokens \<and> AccessToken tokens \<noteq> '''' \<and>
    time_Before (AccessExpiresTime tokens) (Now env (clock_reads w))")
  case True
  then obtain tokens where tokens: "Tokens s = Some tokens" "AccessToken tokens \<noteq> ''''"
    "time_Before (AccessExpiresTime tokens) (Now env (clock_reads w))"
    by blast
  obtain ra w1 where run: "authRequest env (Client s) ctx (NPSSO s) (tick w) = (ra, w1)"
    by (cases "authRequest env (Client s) ctx (NPSSO s) (tick w)")
  show ?thesis
  proof (cases ra)
    case (Inl err)
    with assms tokens run show ?thesis by (simp add: request_def)
  next
    case (Inr newTokens)
    with assms tokens run
    have "dispatch env (s\<lparr>Tokens := Some newTokens\<rparr>) newTokens ctx url w1 = (r, s', w')"
      by (simp add: request_def)
    from dispatch_world [OF this] run Inr show ?thesis by blast
  qed
next
  case False
  show ?thesis
  proof (cases "Tokens s")
    case None
    with assms show ?thesis by (simp add: request_def)
  next
    case (Some tokens)
    show ?thesis
    proof (cases "AccessToken tokens = ''''")
      case True
      with assms Some show ?thesis by (simp add: request_def)
    next
      case notempty: False
      with False Some
      have "\<not> time_Before (AccessExpiresTime tokens) (Now env (clock_reads w))"
        by simp
      with assms Some notempty have "dispatch env s tokens ctx url (tick w) = (r, s', w')"
        by (simp add: request_def)
      from dispatch_world [OF this] show ?thesis by blast
    qed
  qed
qed

text \<open>
  C6. When the exchange fails, for whatever reason, \<open>Authenticate\<close> returns an error and
  no session; a session that \<open>Authenticate\<close> returns holds the Token Pair of an exchange
  that succeeded. When the refresh of an expired Token Pair fails, the protected call
  fails with the refresh error and the session is the one before the call. In general
  the session after a protected call is the session before it, or that session with its
  Token Pair replaced by the result of an exchange that succeeded. A context found
  cancelled right after the authorization call or right after the token call, although
  the transport returned a response, makes the exchange fail with a cancellation error,
  so these cases are among the failures above.
\<close>

theorem failed_exchange_installs_nothing:
  "(\<forall>err w1. authRequest env c ctx npsso w = (Inl err, w1) \<longrightarrow>
      (\<exists>e w'. Authenticate env c ctx npsso w = (Inl e, w'))) \<and>
   (\<forall>session w'. Authenticate env c ctx npsso w = (Inr session, w') \<longrightarrow>
      (\<exists>tokens. authRequest env c ctx npsso w = (Inr tokens, w') \<and>
         Tokens session = Some tokens)) \<and>
   (\<forall>tokens err w1.
      Tokens s = Some tokens \<and> AccessToken tokens \<noteq> '''' \<and>
      time_Before (AccessExpiresTime tokens) (Now env (clock_reads w)) \<and>
      authRequest env (Client s) ctx (NPSSO s) (tick w) = (Inl err, w1) \<longrightarrow>
        request env s ctx url w = (Inl (error_refreshing_tokens err), s, w1)) \<and>
   (\<forall>r s' w'. request env s ctx url w = (r, s', w') \<longrightarrow>
      s' = s \<or>
      (\<exists>newTokens w1.
         authRequest env (Client s) ctx (NPSSO s) (tick w) = (Inr newTokens, w1) \<and>
         s' = s\<lparr>Tokens := Some newTokens\<rparr>)) \<and>
   (\<forall>req resp e.
      npsso \<noteq> '''' \<and>
      NewRequestWithContext env ctx MethodGet (authURL env) '''' = Inr req \<and>
      Do env (httpClient c) (sent w) (add_cookie npsso req) = Inr resp \<and>
      ctx_Err ctx (sent w @ [add_cookie npsso req]) = Some e \<longrightarrow>
        fst (authRequest env c ctx npsso w) = Inl (request_cancelled e)) \<and>
   (\<forall>resp w1 q tokenReq tokenResp e.
      npsso \<noteq> '''' \<and>
      authorize_call env c ctx npsso w = (Inr resp, w1) \<and>
      StatusCode resp = 302 \<and> url_Parse env (Location resp) = Inr q \<and>
      HasPrefix (Values_Get q ''code'') ''v3'' \<and>
      NewRequestWithContext env ctx MethodPost tokenURL
        (Values_Encode env (tokenData (Values_Get q ''code''))) = Inr tokenReq \<and>
      Do env (httpClient c) (sent w1) (token_headers tokenReq) = Inr tokenResp \<and>
      ctx_Err ctx (sent w1 @ [token_headers tokenReq]) = Some e \<longrightarrow>
        fst (authRequest env c ctx npsso w) = Inl (token_request_cancelled e))"
proof (intro conjI allI impI)
  fix err w1 assume "authRequest env c ctx npsso w = (Inl err, w1)"
  then show "\<exists>e w'. Authenticate env c ctx npsso w = (Inl e, w')"
    by (simp add: Authenticate_def split: option.splits)
next
  fix session w' assume "Authenticate env c ctx npsso w = (Inr session, w')"
  then show "\<exists>tokens. authRequest env c ctx npsso w = (Inr tokens, w') \<and>
         Tokens session = Some tokens"
    by (auto simp: Authenticate_def split: option.splits sum.splits prod.splits)
next
  fix tokens err w1
  assume "Tokens s = Some tokens \<and> AccessToken tokens \<noteq> '''' \<and>
      time_Before (AccessExpiresTime tokens) (Now env (clock_reads w)) \<and>
      authRequest env (Client s) ctx (NPSSO s) (tick w) = (Inl err, w1)"
  then show "request env s ctx url w = (Inl (error_refreshing_tokens err), s, w1)"
    by (simp add: request_def)
next
  fix r s' w' assume "request env s ctx url w = (r, s', w')"
  then show "s' = s \<or>
      (\<exists>newTokens w1.
         authRequest env (Client s) ctx (NPSSO s) (tick w) = (Inr newTokens, w1) \<and>
         s' = s\<lparr>Tokens := Some newTokens\<rparr>)"
    by (rule request_session)
next
  fix req resp e
  assume "npsso \<noteq> '''' \<and>
      NewRequestWithContext env ctx MethodGet (authURL env) '''' = Inr req \<and>
      Do env (httpClient c) (sent w) (add_cookie npsso req) = Inr resp \<and>
      ctx_Err ctx (sent w @ [add_cookie npsso req]) = Some e"
  then show "fst (authRequest env c ctx npsso w) = Inl (request_cancelled e)"
    using authRequest_request_cancelled [of npsso env ctx req c w resp e] by simp
next
  fix resp w1 q tokenReq tokenResp e
  assume "npsso \<noteq> '''' \<and>
      authorize_call env c ctx npsso w = (Inr resp, w1) \<and>
      StatusCode resp = 302 \<and> url_Parse env (Location resp) = Inr q \<and>
      HasPrefix (Values_Get q ''code'') ''v3'' \<and>
      NewRequestWithContext env ctx MethodPost tokenURL
        (Values_Encode env (tokenData (Values_Get q ''code''))) = Inr tokenReq \<and>
      Do env (httpClient c) (sent w1) (token_headers tokenReq) = Inr tokenResp \<and>
      ctx_Err ctx (sent w1 @ [token_headers tokenReq]) = Some e"
  then show "fst (authRequest env c ctx npsso w) = Inl (token_request_cancelled e)"
    using authRequest_token_request_cancelled
      [of npsso env c ctx w resp w1 q tokenReq tokenResp e]
    by simp
qed

lemma fake_exchange_cancelled:
  assumes "npsso \<noteq> ''''" and "sent w = []"
  shows "\<exists>w1. authRequest
           (fake_env [Inr (found_response ''cb?code=v3abc''), Inr (body_response 200 ''hour'')])
           fake_Client (cancelled_after 2) npsso w =
         (Inl (token_request_cancelled ''context canceled''), w1)"
  using assms by (simp add: exchange_defs fake_defs)

theorem failed_exchange_installs_nothing_witness:
  "(\<exists>e w'. Authenticate
      (fake_env [Inr (found_response ''cb?code=v3abc''), Inr (body_response 200 ''hour'')])
      fake_Client (cancelled_after 2) (replicate 64 CHR ''a'') idle = (Inl e, w')) \<and>
   fst (request
      (fake_env [Inr (found_response ''cb?code=v3abc''), Inr (body_response 200 ''hour'')])
      (fake_session 5) (cancelled_after 2) ''u'' idle) =
     Inl (error_refreshing_tokens (token_request_cancelled ''context canceled'')) \<and>
   fst (snd (request
      (fake_env [Inr (found_response ''cb?code=v3abc''), Inr (body_response 200 ''hour'')])
      (fake_session 5) (cancelled_after 2) ''u'' idle)) = fake_session 5"
proof -
  let ?env = "fake_env [Inr (found_response ''cb?code=v3abc''), Inr (body_response 200 ''hour'')]"
  let ?npsso = "replicate 64 CHR ''a''"
  note inst = failed_exchange_installs_nothing
    [of ?env fake_Client "cancelled_after 2" ?npsso idle "fake_session 5" "''u''"]
  have "?npsso \<noteq> ''''" by simp
  then obtain w1 where "authRequest ?env fake_Client (cancelled_after 2) ?npsso idle =
      (Inl (token_request_cancelled ''context canceled''), w1)"
    using fake_exchange_cancelled [of ?npsso idle] by (auto simp: idle_def)
  with inst have 1: "\<exists>e w'. Authenticate ?env fake_Client (cancelled_after 2) ?npsso idle =
      (Inl e, w')"
    by blast
  have expired: "time_Before 5 (Now ?env (clock_reads idle))"
    by (simp add: time_Before_def fake_env_def idle_def)
  obtain w1 where "authRequest ?env fake_Client (cancelled_after 2) ''secret'' (tick idle) =
      (Inl (token_request_cancelled ''context canceled''), w1)"
    using fake_exchange_cancelled [of "''secret''" "tick idle"] by (auto simp: idle_def tick_def)
  with inst expired
  have "request ?env (fake_session 5) (cancelled_after 2) ''u'' idle =
      (Inl (error_refreshing_tokens (token_request_cancelled ''context canceled'')),
       fake_session 5, w1)"
    by (simp add: fake_session_fields fake_tokens_def)
  with 1 show ?thesis by simp
qed

section \<open>NewClient and the caller's http.Client\<close>

lemma apply_opts_fields:
  assumes "apply_opts opts c = Inr c'"
  shows "httpClient c' = httpClient c \<or> set_httpClient (httpClient c') \<in> set opts"
  using assms
proof (induction opts c rule: apply_opts.induct)
  case (1 c)
  then show ?case by simp
next
  case (2 opts c)
  then show ?case by simp
next
  case (3 l opts c)
  then show ?case by auto
next
  case (4 r opts c)
  then show ?case by auto
next
  case (5 a opts c)
  then show ?case by auto
qed

text \<open>
  C10. When \<open>NewClient\<close> returns a \<open>Client\<close> (it panics on a nil option), its
  \<open>httpClient\<close> points to a newly allocated \<open>http.Client\<close> whose \<open>CheckRedirect\<close> is the
  function returning \<open>http.ErrUseLastResponse\<close>; the new struct is a copy, but for
  \<open>CheckRedirect\<close>, of \<open>http.DefaultClient\<close> or of a struct supplied through a transport
  option; every \<open>http.Client\<close> that existed before the call is unchanged, in particular
  every one supplied through a transport option, and none of them is the one the new
  \<open>Client\<close> points to.
\<close>

theorem NewClient_disables_redirects_on_a_copy:
  assumes "NewClient Languages Regions opts h = Inr (c, h')"
  shows
    "httpClient c = length h \<and>
     (\<exists>cl. deref h' (httpClient c) = Some cl \<and> CheckRedirect cl = use_last_response) \<and>
     (\<exists>src. src < length h \<and>
        (src = http_DefaultClient \<or> set_httpClient src \<in> set opts) \<and>
        deref h' (httpClient c) = Some ((h ! src)\<lparr>CheckRedirect := use_last_response\<rparr>)) \<and>
     (\<forall>a. a < length h \<longrightarrow> deref h' a = deref h a) \<and>
     (\<forall>a. set_httpClient a \<in> set opts \<and> a < length h \<longrightarrow>
        deref h' a = deref h a \<and> a \<noteq> httpClient c)"
proof -
  from assms obtain c0 c1 cl where
    c0: "defaultConfig Languages Regions = Inr c0" and
    c1: "apply_opts opts c0 = Inr c1" and
    cl: "deref h (httpClient c1) = Some cl" and
    c: "c = \<lparr>httpClient = length h, lang = lang c1, region = region c1\<rparr>" and
    h': "h' = h @ [cl\<lparr>CheckRedirect := use_last_response\<rparr>]"
    by (auto simp: NewClient_def split: sum.splits option.splits)
  from c0 have "httpClient c0 = http_DefaultClient"
    by (auto simp: defaultConfig_def split: list.splits)
  with apply_opts_fields [OF c1]
  have src: "httpClient c1 = http_DefaultClient \<or> set_httpClient (httpClient c1) \<in> set opts"
    by simp
  from cl have lt: "httpClient c1 < length h" and cl_eq: "cl = h ! httpClient c1"
    by (auto simp: deref_def split: if_splits)
  have new: "deref h' (httpClient c) = Some (cl\<lparr>CheckRedirect := use_last_response\<rparr>)"
    by (simp add: c h' deref_def)
  have frame: "deref h' a = deref h a" if "a < length h" for a
    using that by (simp add: h' deref_def nth_append)
  show ?thesis
  proof (intro conjI allI impI)
    show "httpClient c = length h" by (simp add: c)
    show "\<exists>cl. deref h' (httpClient c) = Some cl \<and> CheckRedirect cl = use_last_response"
      using new by simp
    show "\<exists>src. src < length h \<and>
        (src = http_DefaultClient \<or> set_httpClient src \<in> set opts) \<and>
        deref h' (httpClient c) = Some ((h ! src)\<lparr>CheckRedirect := use_last_response\<rparr>)"
      using lt src new cl_eq by blast
  next
    fix a assume "a < length h"
    then show "deref h' a = deref h a" by (rule frame)
  next
    fix a assume "set_httpClient a \<in> set opts \<and> a < length h"
    then show "deref h' a = deref h a" by (simp add: frame)
  next
    fix a assume "set_httpClient a \<in> set opts \<and> a < length h"
    then show "a \<noteq> httpClient c" by (simp add: c)
  qed
qed

theorem NewClient_disables_redirects_on_a_copy_witness:
  "NewClient [''en'', ''fr''] [''us'', ''fr''] [set_region ''fr'', set_lang ''fr'', set_httpClient 1]
     [\<lparr>Transport = 0, CheckRedirect = nil_func, Jar = 0, Timeout = 0\<rparr>,
      \<lparr>Transport = 7, CheckRedirect = caller_func 3, Jar = 0, Timeout = 30000000000\<rparr>] =
   Inr (\<lparr>httpClient = 2, lang = ''fr'', region = ''fr''\<rparr>,
        [\<lparr>Transport = 0, CheckRedirect = nil_func, Jar = 0, Timeout = 0\<rparr>,
         \<lparr>Transport = 7, CheckRedirect = caller_func 3, Jar = 0, Timeout = 30000000000\<rparr>,
         \<lparr>Transport = 7, CheckRedirect = use_last_response, Jar = 0,
          Timeout = 30000000000\<rparr>]) \<and>
   deref
     [\<lparr>Transport = 0, CheckRedirect = nil_func, Jar = 0, Timeout = 0\<rparr>,
      \<lparr>Transport = 7, CheckRedirect = caller_func 3, Jar = 0, Timeout = 30000000000\<rparr>,
      \<lparr>Transport = 7, CheckRedirect = use_last_response, Jar = 0, Timeout = 30000000000\<rparr>] 1 =
   deref
     [\<lparr>Transport = 0, CheckRedirect = nil_func, Jar = 0, Timeout = 0\<rparr>,
      \<lparr>Transport = 7, CheckRedirect = caller_func 3, Jar = 0, Timeout = 30000000000\<rparr>] 1"
proof -
  let ?h = "[\<lparr>Transport = 0, CheckRedirect = nil_func, Jar = 0, Timeout = 0\<rparr>,
      \<lparr>Transport = 7, CheckRedirect = caller_func 3, Jar = 0, Timeout = 30000000000\<rparr>]"
  let ?h' = "?h @ [\<lparr>Transport = 7, CheckRedirect = use_last_response, Jar = 0,
          Timeout = 30000000000\<rparr>]"
  let ?opts = "[set_region ''fr'', set_lang ''fr'', set_httpClient 1]"
  have run: "NewClient [''en'', ''fr''] [''us'', ''fr''] ?opts ?h =
      Inr (\<lparr>httpClient = 2, lang = ''fr'', region = ''fr''\<rparr>, ?h')"
    by (simp add: NewClient_def defaultConfig_def deref_def http_DefaultClient_def)
  have "set_httpClient 1 \<in> set ?opts \<and> 1 < length ?h" by simp
  with NewClient_disables_redirects_on_a_copy [OF run]
  have "deref ?h' 1 = deref ?h 1" by blast
  with run show ?thesis by simp
qed

end
